theory Spec2Isabelle
  imports Main "HOL-Library.Word" "HOL-Library.Char_ord" "HOL-Library.List_Lexorder"
begin

section \<open>Status codes and outcomes of a call\<close>

text \<open>
  Modelled from the spec: the header \<^verbatim>\<open>a4def.h\<close> is not among the sources. The
  status codes are the ones that the functions of \<^verbatim>\<open>ft.c\<close> and \<^verbatim>\<open>nodeFT.c\<close>
  return by name, which are the errors the spec lists.
\<close>

datatype status =
    SUCCESS
  | INITIALIZATION_ERROR
  | ALREADY_IN_TREE
  | NO_SUCH_PATH
  | CONFLICTING_PATH
  | BAD_PATH
  | NOT_A_DIRECTORY
  | NOT_A_FILE
  | MEMORY_ERROR

text \<open>
  A call either returns a value or does not return normally: an \<^verbatim>\<open>assert\<close> of
  the source fails, or the call reads memory it must not read (a string with no
  terminator, a buffer shorter than the length given for it).
\<close>

datatype 'a outcome = Returns 'a | Aborts

section \<open>Paths\<close>

text \<open>
  Modelled from the spec: the Path module (\<^verbatim>\<open>path.h\<close>, \<^verbatim>\<open>path.c\<close>) is not among
  the sources. A path is the sequence of its components; its depth is their number;
  \<open>prefix(path, k)\<close> is the path of the first \<open>k\<close> components and fails if \<open>k\<close> exceeds
  the depth; paths are compared as their path strings, lexicographically by character
  code; the path string writes every component after a slash, as in the paths the
  spec gives (\<^verbatim>\<open>"/a/b"\<close>).
\<close>

type_synonym Path_T = "string list"

definition Path_getDepth :: "Path_T \<Rightarrow> nat" where
  "Path_getDepth oPPath = length oPPath"

definition Path_prefix :: "Path_T \<Rightarrow> nat \<Rightarrow> Path_T option" where
  "Path_prefix oPPath ulDepth =
     (if ulDepth \<le> length oPPath then Some (take ulDepth oPPath) else None)"

definition Path_toString :: "Path_T \<Rightarrow> string" where
  "Path_toString oPPath = concat (map (\<lambda>c. CHR ''/'' # c) oPPath)"

fun strcmp :: "string \<Rightarrow> string \<Rightarrow> int" where
  "strcmp [] [] = 0"
| "strcmp [] (y # ys) = - 1"
| "strcmp (x # xs) [] = 1"
| "strcmp (x # xs) (y # ys) =
     (if x = y then strcmp xs ys
      else if (of_char x :: nat) < of_char y then - 1 else 1)"

definition Path_comparePath :: "Path_T \<Rightarrow> Path_T \<Rightarrow> int" where
  "Path_comparePath oPPath1 oPPath2 = strcmp (Path_toString oPPath1) (Path_toString oPPath2)"

definition Path_isPrefix :: "Path_T \<Rightarrow> Path_T \<Rightarrow> bool" where
  "Path_isPrefix oPPath1 oPPath2 = (take (length oPPath1) oPPath2 = oPPath1)"

fun Path_getSharedPrefixDepth :: "Path_T \<Rightarrow> Path_T \<Rightarrow> nat" where
  "Path_getSharedPrefixDepth (x # xs) (y # ys) =
     (if x = y then Suc (Path_getSharedPrefixDepth xs ys) else 0)"
| "Path_getSharedPrefixDepth _ _ = 0"

text \<open>
  Modelled from the spec: parsing. The empty string is the path of depth 0; any other
  string must start with a slash and name a non-empty component after every slash.
\<close>

fun Path_split :: "string \<Rightarrow> string list" where
  "Path_split [] = [[]]"
| "Path_split (c # cs) =
     (if c = CHR ''/'' then [] # Path_split cs
      else (case Path_split cs of [] \<Rightarrow> [[c]] | x # xs \<Rightarrow> (c # x) # xs))"

definition Path_create :: "string \<Rightarrow> Path_T option" where
  "Path_create pcPath =
     (case pcPath of
        [] \<Rightarrow> Some []
      | c # cs \<Rightarrow>
          if c \<noteq> CHR ''/'' then None
          else if list_ex (\<lambda>x. x = []) (Path_split cs) then None
          else Some (Path_split cs))"

section \<open>Nodes (nodeFT.c)\<close>

datatype NodeType = FT_DIR | FT_FILE

text \<open>
  \<^verbatim>\<open>struct node\<close>. A directory owns its children, so the nodes under a root form a
  tree and a node is modelled together with the nodes below it. The back pointer
  \<^verbatim>\<open>oNParent\<close> is written by \<^verbatim>\<open>Node_new\<close> and read by no function of
  \<^verbatim>\<open>ft.c\<close>: the parent of a node is the node that holds it in \<^verbatim>\<open>oChildren\<close>.
  \<^verbatim>\<open>pcContents\<close> is \<open>None\<close> for the \<^verbatim>\<open>NULL\<close> pointer and otherwise the C string
  stored in the buffer. A file has no child array; it is modelled with the empty list,
  and every function that reads the array asserts that the node is a directory first.
\<close>

datatype node =
  Node (oPPath: Path_T) (eType: NodeType) (oChildren: "node list") (pcContents: "string option")

definition Node_getNumChildren :: "node \<Rightarrow> nat outcome" where
  "Node_getNumChildren oNParent =
     (if eType oNParent = FT_DIR then Returns (length (oChildren oNParent)) else Aborts)"


text \<open>
  The loop of \<^verbatim>\<open>Node_hasChild\<close>, and of every search of \<^verbatim>\<open>ft.c\<close> for a child
  with a given path: the index of the first child whose path compares equal.
\<close>

fun FT_findChild :: "node list \<Rightarrow> Path_T \<Rightarrow> nat option" where
  "FT_findChild [] oPKey = None"
| "FT_findChild (child # rest) oPKey =
     (if Path_comparePath (oPPath child) oPKey = 0 then Some 0
      else map_option Suc (FT_findChild rest oPKey))"

definition Node_hasChild :: "node \<Rightarrow> Path_T \<Rightarrow> bool outcome" where
  "Node_hasChild oNParent oPKey =
     (if eType oNParent \<noteq> FT_DIR then Aborts
      else Returns (FT_findChild (oChildren oNParent) oPKey \<noteq> None))"

text \<open>
  \<^verbatim>\<open>Node_new\<close>. It returns a status other than \<^verbatim>\<open>SUCCESS\<close> (\<open>Inl\<close>), or
  \<^verbatim>\<open>SUCCESS\<close> with the new node in \<^verbatim>\<open>*poNResult\<close> (\<open>Inr\<close>). \<open>mem\<close> tells
  whether its allocations succeed. The new node is not linked into the parent: the
  caller does that. The test the source writes \<^verbatim>\<open>Path_prefix(oParentPath, oPPath)\<close>
  is the prefix test of the Path module.
\<close>

definition Node_alloc :: "Path_T \<Rightarrow> NodeType \<Rightarrow> bool \<Rightarrow> (status + node) outcome" where
  "Node_alloc oPNew eType' mem =
     (if \<not> mem then Returns (Inl MEMORY_ERROR)
      else if eType' = FT_DIR then Returns (Inr (Node oPNew FT_DIR [] None))
      else Returns (Inr (Node oPNew FT_FILE [] (Some []))))"

definition Node_new :: "Path_T \<Rightarrow> node option \<Rightarrow> NodeType \<Rightarrow> bool \<Rightarrow> (status + node) outcome" where
  "Node_new oPNew oNParent eType' mem =
     (if Path_getDepth oPNew = 0 then Returns (Inl NO_SUCH_PATH)
      else
        (case oNParent of
           None \<Rightarrow>
             if Path_getDepth oPNew \<noteq> 1 then Returns (Inl NO_SUCH_PATH)
             else Node_alloc oPNew eType' mem
         | Some par \<Rightarrow>
             if Path_getDepth oPNew \<noteq> Path_getDepth (oPPath par) + 1
             then Returns (Inl NO_SUCH_PATH)
             else if \<not> Path_isPrefix (oPPath par) oPNew then Returns (Inl CONFLICTING_PATH)
             else
               (case Node_hasChild par oPNew of
                  Aborts \<Rightarrow> Aborts
                | Returns True \<Rightarrow> Returns (Inl ALREADY_IN_TREE)
                | Returns False \<Rightarrow> Node_alloc oPNew eType' mem)))"

text \<open>
  \<^verbatim>\<open>Node_free\<close> returns the number of nodes it frees: the node and, for a
  directory, every node below it.
\<close>

fun Node_free :: "node \<Rightarrow> nat" where
  "Node_free (Node p t cs x) =
     (if t = FT_DIR then sum_list (map Node_free cs) + 1 else 1)"

text \<open>
  \<^verbatim>\<open>Node_setContents\<close> and \<^verbatim>\<open>Node_getContents\<close>. The argument is a C string or
  \<^verbatim>\<open>NULL\<close>; \<open>mem\<close> tells whether \<^verbatim>\<open>malloc\<close> succeeds. The result is the
  \<^verbatim>\<open>int\<close> returned (1 or 0) and the node afterwards.
\<close>

definition Node_setContents :: "node \<Rightarrow> string option \<Rightarrow> bool \<Rightarrow> int \<times> node" where
  "Node_setContents oNNode pcNew mem =
     (if eType oNNode \<noteq> FT_FILE then (0, oNNode)
      else
        let pcStr = (case pcNew of None \<Rightarrow> [] | Some str \<Rightarrow> str) in
        if \<not> mem then (0, oNNode)
        else (1, Node (oPPath oNNode) (eType oNNode) (oChildren oNNode) (Some pcStr)))"

definition Node_getContents :: "node \<Rightarrow> string option" where
  "Node_getContents oNNode = (if eType oNNode \<noteq> FT_FILE then None else pcContents oNNode)"

text \<open>
  \<^verbatim>\<open>Node_compare\<close> orders nodes by their paths; \<^verbatim>\<open>Node_toString\<close> is the path
  string followed by the kind in brackets.
\<close>

definition Node_compare :: "node \<Rightarrow> node \<Rightarrow> int" where
  "Node_compare oNFirst oNSecond = Path_comparePath (oPPath oNFirst) (oPPath oNSecond)"

definition Node_toString :: "node \<Rightarrow> string" where
  "Node_toString oNNode =
     Path_toString (oPPath oNNode) @ '' ['' @
       (if eType oNNode = FT_FILE then ''file'' else ''dir'') @ '']''"

section \<open>The File Tree (ft.c)\<close>

text \<open>
  The two static variables of \<^verbatim>\<open>ft.c\<close>. Every function of the File Tree takes this
  state and, when it changes it, returns the state afterwards.
\<close>

record FT =
  bIsInitialized :: bool
  oRoot :: "node option"

definition FT_start :: FT where
  "FT_start = \<lparr>bIsInitialized = False, oRoot = None\<rparr>"

text \<open>
  A pointer to a node of the tree is the list of child indices that lead to it from the
  root. \<open>Node_modify f loc root\<close> is the tree after the node at \<open>loc\<close> has been
  changed in place by \<open>f\<close>.
\<close>

fun Node_modify :: "(node \<Rightarrow> node) \<Rightarrow> nat list \<Rightarrow> node \<Rightarrow> node" where
  "Node_modify f [] n = f n"
| "Node_modify f (j # js) n =
     (if j < length (oChildren n)
      then Node (oPPath n) (eType n)
             ((oChildren n)[j := Node_modify f js (oChildren n ! j)]) (pcContents n)
      else n)"

text \<open>
  Modelled from the spec: the dynamic array module (\<^verbatim>\<open>dynarray.h\<close>) is not among the
  sources. \<^verbatim>\<open>DynArray_add\<close> appends; \<^verbatim>\<open>DynArray_removeAt\<close> removes the element
  at an index.
\<close>

definition DynArray_add :: "node \<Rightarrow> node \<Rightarrow> node" where
  "DynArray_add oNewNode oNParent =
     Node (oPPath oNParent) (eType oNParent) (oChildren oNParent @ [oNewNode]) (pcContents oNParent)"

definition DynArray_removeAt :: "nat \<Rightarrow> node \<Rightarrow> node" where
  "DynArray_removeAt j oNParent =
     Node (oPPath oNParent) (eType oNParent)
       (take j (oChildren oNParent) @ drop (Suc j) (oChildren oNParent)) (pcContents oNParent)"

text \<open>
  Step 3 of \<^verbatim>\<open>FT_insertDir\<close> and of \<^verbatim>\<open>FT_insertFile\<close>: the loop over the
  levels \<open>i = 1, ..., depth - 1\<close>, started at the root. At every level it searches the
  children of the current node for the prefix of depth \<open>i\<close>. The two functions differ
  in the status for a prefix that is not found (\<open>missing\<close>).
\<close>

datatype descent = Parent "nat list" node | Failed status

function FT_descend :: "status \<Rightarrow> Path_T \<Rightarrow> nat \<Rightarrow> nat \<Rightarrow> nat list \<Rightarrow> node \<Rightarrow> descent outcome" where
  "FT_descend missing oNewPath depth i loc oCurr =
     (if i < depth then
        (case Path_prefix oNewPath i of
           None \<Rightarrow> Returns (Failed MEMORY_ERROR)
         | Some oPrefix \<Rightarrow>
             (case Node_getNumChildren oCurr of
                Aborts \<Rightarrow> Aborts
              | Returns numChildren \<Rightarrow>
                  (case FT_findChild (oChildren oCurr) oPrefix of
                     None \<Rightarrow> Returns (Failed missing)
                   | Some j \<Rightarrow>
                       if eType (oChildren oCurr ! j) \<noteq> FT_DIR
                       then Returns (Failed NOT_A_DIRECTORY)
                       else FT_descend missing oNewPath depth (Suc i) (loc @ [j])
                              (oChildren oCurr ! j))))
      else Returns (Parent loc oCurr))"
  by pat_completeness auto
termination
  by (relation "measure (\<lambda>(missing, oNewPath, depth, i, loc, oCurr). depth - i)") auto

declare FT_descend.simps [simp del]

text \<open>
  The traversal loop shared by the lookups, the removals and \<^verbatim>\<open>FT_stat\<close>: levels
  \<open>i = 1, ..., depth\<close>, started at the root, with no test of the kind of the nodes
  passed.
\<close>

datatype walk = Located "nat list" node | Absent | NoPrefix

function FT_walk :: "Path_T \<Rightarrow> nat \<Rightarrow> nat \<Rightarrow> nat list \<Rightarrow> node \<Rightarrow> walk outcome" where
  "FT_walk oTargetPath depth i loc oCurr =
     (if i \<le> depth then
        (case Path_prefix oTargetPath i of
           None \<Rightarrow> Returns NoPrefix
         | Some oPrefix \<Rightarrow>
             (case Node_getNumChildren oCurr of
                Aborts \<Rightarrow> Aborts
              | Returns numChildren \<Rightarrow>
                  (case FT_findChild (oChildren oCurr) oPrefix of
                     None \<Rightarrow> Returns Absent
                   | Some j \<Rightarrow>
                       FT_walk oTargetPath depth (Suc i) (loc @ [j]) (oChildren oCurr ! j))))
      else Returns (Located loc oCurr))"
  by pat_completeness auto
termination
  by (relation "measure (\<lambda>(oTargetPath, depth, i, loc, oCurr). Suc depth - i)") auto

declare FT_walk.simps [simp del]

text \<open>
  \<^verbatim>\<open>FT_insertDir\<close>. \<open>mem k\<close> tells whether the \<open>k\<close>-th allocation of the call
  succeeds: 0 is \<^verbatim>\<open>Node_new\<close>, 1 is \<^verbatim>\<open>DynArray_add\<close>. The calls of the Path
  module are taken as the spec gives them, with no allocation failure of their own.
\<close>

definition FT_insertDir_link ::
  "FT \<Rightarrow> node \<Rightarrow> Path_T \<Rightarrow> nat list \<Rightarrow> node \<Rightarrow> (nat \<Rightarrow> bool) \<Rightarrow> (status \<times> FT) outcome" where
  "FT_insertDir_link ft root oNewPath loc oCurr mem =
     (case Node_getNumChildren oCurr of
        Aborts \<Rightarrow> Aborts
      | Returns numChildren \<Rightarrow>
          if FT_findChild (oChildren oCurr) oNewPath \<noteq> None then Returns (ALREADY_IN_TREE, ft)
          else
            (case Node_new oNewPath (Some oCurr) FT_DIR (mem 0) of
               Aborts \<Rightarrow> Aborts
             | Returns (Inl result) \<Rightarrow> Returns (result, ft)
             | Returns (Inr oNewNode) \<Rightarrow>
                 if \<not> mem 1 then Returns (MEMORY_ERROR, ft)
                 else Returns (SUCCESS,
                        ft\<lparr>oRoot := Some (Node_modify (DynArray_add oNewNode) loc root)\<rparr>)))"

definition FT_insertDir :: "FT \<Rightarrow> string \<Rightarrow> (nat \<Rightarrow> bool) \<Rightarrow> (status \<times> FT) outcome" where
  "FT_insertDir ft pcPath mem =
     (if \<not> bIsInitialized ft then Returns (INITIALIZATION_ERROR, ft)
      else
        (case Path_create pcPath of
           None \<Rightarrow> Returns (BAD_PATH, ft)
         | Some oNewPath \<Rightarrow>
             if Path_getDepth oNewPath = 0 then Returns (BAD_PATH, ft)
             else
               (case oRoot ft of
                  None \<Rightarrow>
                    if Path_getDepth oNewPath \<noteq> 1 then Returns (CONFLICTING_PATH, ft)
                    else
                      (case Node_new oNewPath None FT_DIR (mem 0) of
                         Aborts \<Rightarrow> Aborts
                       | Returns (Inl result) \<Rightarrow> Returns (result, ft)
                       | Returns (Inr oNResult) \<Rightarrow> Returns (SUCCESS, ft\<lparr>oRoot := Some oNResult\<rparr>))
                | Some root \<Rightarrow>
                    (case FT_descend NO_SUCH_PATH oNewPath (Path_getDepth oNewPath) 1 [] root of
                       Aborts \<Rightarrow> Aborts
                     | Returns (Failed result) \<Rightarrow> Returns (result, ft)
                     | Returns (Parent loc oCurr) \<Rightarrow>
                         FT_insertDir_link ft root oNewPath loc oCurr mem))))"

text \<open>
  \<^verbatim>\<open>FT_insertFile\<close>. The contents are a buffer (\<open>None\<close> for \<^verbatim>\<open>NULL\<close>) and the
  number of bytes to take from it. The source copies \<^verbatim>\<open>ulLength\<close> bytes and hands
  the copy to \<^verbatim>\<open>Node_setContents\<close>, which reads it as a C string: up to the first
  zero byte. Allocations: 0 is \<^verbatim>\<open>Node_new\<close> of a root made for an empty tree, 1 is
  \<^verbatim>\<open>Node_new\<close> of the file, 2 is \<^verbatim>\<open>malloc(ulLength)\<close>, 3 is the
  \<^verbatim>\<open>malloc\<close> of \<^verbatim>\<open>Node_setContents\<close>, 4 is \<^verbatim>\<open>DynArray_add\<close>.
\<close>

definition cstring :: "string \<Rightarrow> string option" where
  "cstring buf =
     (if list_ex (\<lambda>c. c = CHR 0x00) buf then Some (takeWhile (\<lambda>c. c \<noteq> CHR 0x00) buf)
      else None)"

definition memcpy :: "string \<Rightarrow> nat \<Rightarrow> string option" where
  "memcpy buf ulLength = (if ulLength \<le> length buf then Some (take ulLength buf) else None)"

definition FT_insertFile_contents ::
  "node \<Rightarrow> string option \<Rightarrow> nat \<Rightarrow> bool \<Rightarrow> (status + node) outcome" where
  "FT_insertFile_contents oNewNode pvContents ulLength mem =
     (case pvContents of
        None \<Rightarrow> Returns (Inr (snd (Node_setContents oNewNode None mem)))
      | Some buf \<Rightarrow>
          if ulLength = 0 then Returns (Inr (snd (Node_setContents oNewNode None mem)))
          else
            (case memcpy buf ulLength of
               None \<Rightarrow> Aborts
             | Some copy \<Rightarrow>
                 (case cstring copy of
                    None \<Rightarrow> Aborts
                  | Some str \<Rightarrow>
                      if fst (Node_setContents oNewNode (Some str) mem) = 0
                      then Returns (Inl MEMORY_ERROR)
                      else Returns (Inr (snd (Node_setContents oNewNode (Some str) mem))))))"

definition FT_insertFile_link ::
  "FT \<Rightarrow> node \<Rightarrow> Path_T \<Rightarrow> nat list \<Rightarrow> node \<Rightarrow> string option \<Rightarrow> nat \<Rightarrow> (nat \<Rightarrow> bool)
     \<Rightarrow> (status \<times> FT) outcome" where
  "FT_insertFile_link ft root oNewPath loc oCurr pvContents ulLength mem =
     (case Node_getNumChildren oCurr of
        Aborts \<Rightarrow> Aborts
      | Returns numChildren \<Rightarrow>
          if FT_findChild (oChildren oCurr) oNewPath \<noteq> None then Returns (ALREADY_IN_TREE, ft)
          else
            (case Node_new oNewPath (Some oCurr) FT_FILE (mem 1) of
               Aborts \<Rightarrow> Aborts
             | Returns (Inl result) \<Rightarrow> Returns (result, ft)
             | Returns (Inr oNewNode) \<Rightarrow>
                 if ulLength > 0 \<and> \<not> mem 2 then Returns (MEMORY_ERROR, ft)
                 else
                   (case FT_insertFile_contents oNewNode pvContents ulLength (mem 3) of
                      Aborts \<Rightarrow> Aborts
                    | Returns (Inl result) \<Rightarrow> Returns (result, ft)
                    | Returns (Inr oFileNode) \<Rightarrow>
                        if \<not> mem 4 then Returns (MEMORY_ERROR, ft)
                        else Returns (SUCCESS,
                               ft\<lparr>oRoot := Some (Node_modify (DynArray_add oFileNode) loc root)\<rparr>))))"

definition FT_insertFile_from ::
  "FT \<Rightarrow> node \<Rightarrow> Path_T \<Rightarrow> string option \<Rightarrow> nat \<Rightarrow> (nat \<Rightarrow> bool) \<Rightarrow> (status \<times> FT) outcome" where
  "FT_insertFile_from ft root oNewPath pvContents ulLength mem =
     (case FT_descend CONFLICTING_PATH oNewPath (Path_getDepth oNewPath) 1 [] root of
        Aborts \<Rightarrow> Aborts
      | Returns (Failed result) \<Rightarrow> Returns (result, ft)
      | Returns (Parent loc oCurr) \<Rightarrow>
          FT_insertFile_link ft root oNewPath loc oCurr pvContents ulLength mem)"

definition FT_insertFile ::
  "FT \<Rightarrow> string \<Rightarrow> string option \<Rightarrow> nat \<Rightarrow> (nat \<Rightarrow> bool) \<Rightarrow> (status \<times> FT) outcome" where
  "FT_insertFile ft pcPath pvContents ulLength mem =
     (if \<not> bIsInitialized ft then Returns (INITIALIZATION_ERROR, ft)
      else
        (case Path_create pcPath of
           None \<Rightarrow> Returns (BAD_PATH, ft)
         | Some oNewPath \<Rightarrow>
             if Path_getDepth oNewPath = 0 then Returns (BAD_PATH, ft)
             else
               (case oRoot ft of
                  None \<Rightarrow>
                    if Path_getDepth oNewPath = 1 then Returns (CONFLICTING_PATH, ft)
                    else
                      (case Path_prefix oNewPath 1 of
                         None \<Rightarrow> Returns (MEMORY_ERROR, ft)
                       | Some rootPrefix \<Rightarrow>
                           (case Node_new rootPrefix None FT_DIR (mem 0) of
                              Aborts \<Rightarrow> Aborts
                            | Returns (Inl result) \<Rightarrow> Returns (result, ft)
                            | Returns (Inr oNResult) \<Rightarrow>
                                FT_insertFile_from (ft\<lparr>oRoot := Some oNResult\<rparr>) oNResult
                                  oNewPath pvContents ulLength mem))
                | Some root \<Rightarrow>
                    FT_insertFile_from ft root oNewPath pvContents ulLength mem)))"

text \<open>
  The lookups. Each of them runs the traversal loop from the root and then looks at
  the kind of the node the loop ends at.
\<close>

definition FT_containsDir :: "FT \<Rightarrow> string \<Rightarrow> bool outcome" where
  "FT_containsDir ft pcPath =
     (if \<not> bIsInitialized ft then Returns False
      else
        (case Path_create pcPath of
           None \<Rightarrow> Returns False
         | Some oTargetPath \<Rightarrow>
             if Path_getDepth oTargetPath = 0 then Returns False
             else
               (case oRoot ft of
                  None \<Rightarrow> Returns False
                | Some root \<Rightarrow>
                    (case FT_walk oTargetPath (Path_getDepth oTargetPath) 1 [] root of
                       Aborts \<Rightarrow> Aborts
                     | Returns (Located loc oCurr) \<Rightarrow> Returns (eType oCurr = FT_DIR)
                     | Returns Absent \<Rightarrow> Returns False
                     | Returns NoPrefix \<Rightarrow> Returns False))))"

definition FT_containsFile :: "FT \<Rightarrow> string \<Rightarrow> bool outcome" where
  "FT_containsFile ft pcPath =
     (if \<not> bIsInitialized ft then Returns False
      else
        (case Path_create pcPath of
           None \<Rightarrow> Returns False
         | Some oTargetPath \<Rightarrow>
             if Path_getDepth oTargetPath = 0 then Returns False
             else
               (case oRoot ft of
                  None \<Rightarrow> Returns False
                | Some root \<Rightarrow>
                    (case FT_walk oTargetPath (Path_getDepth oTargetPath) 1 [] root of
                       Aborts \<Rightarrow> Aborts
                     | Returns (Located loc oCurr) \<Rightarrow> Returns (eType oCurr = FT_FILE)
                     | Returns Absent \<Rightarrow> Returns False
                     | Returns NoPrefix \<Rightarrow> Returns False))))"

text \<open>
  The removals. The node to remove is the one the traversal ends at; the source finds
  it again in the parent's array by pointer, which gives the index the traversal took.
\<close>

definition FT_unlink :: "FT \<Rightarrow> node \<Rightarrow> nat list \<Rightarrow> (status \<times> FT) outcome" where
  "FT_unlink ft root loc =
     (case rev loc of
        [] \<Rightarrow> Aborts
      | j # up \<Rightarrow>
          Returns (SUCCESS, ft\<lparr>oRoot := Some (Node_modify (DynArray_removeAt j) (rev up) root)\<rparr>))"

definition FT_rmDir :: "FT \<Rightarrow> string \<Rightarrow> (status \<times> FT) outcome" where
  "FT_rmDir ft pcPath =
     (if \<not> bIsInitialized ft then Returns (INITIALIZATION_ERROR, ft)
      else
        (case Path_create pcPath of
           None \<Rightarrow> Returns (BAD_PATH, ft)
         | Some oTargetPath \<Rightarrow>
             if Path_getDepth oTargetPath = 0 then Returns (BAD_PATH, ft)
             else
               (case oRoot ft of
                  None \<Rightarrow> Returns (NO_SUCH_PATH, ft)
                | Some root \<Rightarrow>
                    if Path_comparePath (oPPath root) oTargetPath = 0 then
                      (if eType root \<noteq> FT_DIR then Returns (NOT_A_DIRECTORY, ft)
                       else Returns (SUCCESS, ft\<lparr>oRoot := None\<rparr>))
                    else
                      (case FT_walk oTargetPath (Path_getDepth oTargetPath) 1 [] root of
                         Aborts \<Rightarrow> Aborts
                       | Returns NoPrefix \<Rightarrow> Returns (MEMORY_ERROR, ft)
                       | Returns Absent \<Rightarrow> Returns (NO_SUCH_PATH, ft)
                       | Returns (Located loc oToRemove) \<Rightarrow>
                           if eType oToRemove \<noteq> FT_DIR then Returns (NOT_A_DIRECTORY, ft)
                           else FT_unlink ft root loc))))"

definition FT_rmFile :: "FT \<Rightarrow> string \<Rightarrow> (status \<times> FT) outcome" where
  "FT_rmFile ft pcPath =
     (if \<not> bIsInitialized ft then Returns (INITIALIZATION_ERROR, ft)
      else
        (case Path_create pcPath of
           None \<Rightarrow> Returns (BAD_PATH, ft)
         | Some oTargetPath \<Rightarrow>
             if Path_getDepth oTargetPath = 0 then Returns (BAD_PATH, ft)
             else
               (case oRoot ft of
                  None \<Rightarrow> Returns (NO_SUCH_PATH, ft)
                | Some root \<Rightarrow>
                    if Path_comparePath (oPPath root) oTargetPath = 0 then
                      (if eType root = FT_FILE then Returns (NOT_A_FILE, ft)
                       else Returns (CONFLICTING_PATH, ft))
                    else
                      (case FT_walk oTargetPath (Path_getDepth oTargetPath) 1 [] root of
                         Aborts \<Rightarrow> Aborts
                       | Returns NoPrefix \<Rightarrow> Returns (MEMORY_ERROR, ft)
                       | Returns Absent \<Rightarrow> Returns (NO_SUCH_PATH, ft)
                       | Returns (Located loc oCurr) \<Rightarrow>
                           if eType oCurr \<noteq> FT_FILE then Returns (NOT_A_FILE, ft)
                           else FT_unlink ft root loc))))"

text \<open>
  A pointer to a content buffer, as the caller of \<^verbatim>\<open>FT_getFileContents\<close> and
  \<^verbatim>\<open>FT_replaceFileContents\<close> receives it: \<^verbatim>\<open>NULL\<close>, a buffer that is still
  allocated, or a buffer that has been passed to \<^verbatim>\<open>free\<close>.
\<close>

datatype buffer = NullPtr | LivePtr string | FreedPtr string

definition FT_getFileContents :: "FT \<Rightarrow> string \<Rightarrow> buffer outcome" where
  "FT_getFileContents ft pcPath =
     (if \<not> bIsInitialized ft then Returns NullPtr
      else
        (case Path_create pcPath of
           None \<Rightarrow> Returns NullPtr
         | Some oTargetPath \<Rightarrow>
             if Path_getDepth oTargetPath = 0 then Returns NullPtr
             else
               (case oRoot ft of
                  None \<Rightarrow> Returns NullPtr
                | Some root \<Rightarrow>
                    (case FT_walk oTargetPath (Path_getDepth oTargetPath) 1 [] root of
                       Aborts \<Rightarrow> Aborts
                     | Returns NoPrefix \<Rightarrow> Returns NullPtr
                     | Returns Absent \<Rightarrow> Returns NullPtr
                     | Returns (Located loc oCurr) \<Rightarrow>
                         if eType oCurr \<noteq> FT_FILE then Returns NullPtr
                         else
                           (case Node_getContents oCurr of
                              None \<Rightarrow> Returns NullPtr
                            | Some str \<Rightarrow> Returns (LivePtr str))))))"

text \<open>
  \<^verbatim>\<open>FT_replaceFileContents\<close>. Allocations: 0 is \<^verbatim>\<open>malloc(ulNewLength)\<close>, 1 is
  the \<^verbatim>\<open>malloc\<close> of \<^verbatim>\<open>Node_setContents\<close>. \<^verbatim>\<open>Node_setContents\<close> frees the
  old buffer before it returns, so the pointer saved in \<^verbatim>\<open>oldContents\<close> is the
  pointer of a freed buffer when it is returned.
\<close>

definition FT_replaceFileContents_set ::
  "FT \<Rightarrow> node \<Rightarrow> nat list \<Rightarrow> node \<Rightarrow> string option \<Rightarrow> bool \<Rightarrow> (buffer \<times> FT) outcome" where
  "FT_replaceFileContents_set ft root loc oCurr newContents mem =
     (if fst (Node_setContents oCurr newContents mem) = 0 then Returns (NullPtr, ft)
      else
        Returns
          (case Node_getContents oCurr of None \<Rightarrow> NullPtr | Some old \<Rightarrow> FreedPtr old,
           ft\<lparr>oRoot := Some (Node_modify (\<lambda>n. snd (Node_setContents n newContents mem)) loc root)\<rparr>))"

definition FT_replaceFileContents ::
  "FT \<Rightarrow> string \<Rightarrow> string option \<Rightarrow> nat \<Rightarrow> (nat \<Rightarrow> bool) \<Rightarrow> (buffer \<times> FT) outcome" where
  "FT_replaceFileContents ft pcPath pvNewContents ulNewLength mem =
     (if \<not> bIsInitialized ft then Returns (NullPtr, ft)
      else
        (case Path_create pcPath of
           None \<Rightarrow> Returns (NullPtr, ft)
         | Some oTargetPath \<Rightarrow>
             if Path_getDepth oTargetPath = 0 then Returns (NullPtr, ft)
             else
               (case oRoot ft of
                  None \<Rightarrow> Returns (NullPtr, ft)
                | Some root \<Rightarrow>
                    (case FT_walk oTargetPath (Path_getDepth oTargetPath) 1 [] root of
                       Aborts \<Rightarrow> Aborts
                     | Returns NoPrefix \<Rightarrow> Returns (NullPtr, ft)
                     | Returns Absent \<Rightarrow> Returns (NullPtr, ft)
                     | Returns (Located loc oCurr) \<Rightarrow>
                         if eType oCurr \<noteq> FT_FILE then Returns (NullPtr, ft)
                         else
                           (case pvNewContents of
                              None \<Rightarrow> FT_replaceFileContents_set ft root loc oCurr None (mem 1)
                            | Some buf \<Rightarrow>
                                if ulNewLength = 0
                                then FT_replaceFileContents_set ft root loc oCurr None (mem 1)
                                else if \<not> mem 0 then Returns (NullPtr, ft)
                                else
                                  (case memcpy buf ulNewLength of
                                     None \<Rightarrow> Aborts
                                   | Some newContents \<Rightarrow>
                                       (case cstring newContents of
                                          None \<Rightarrow> Aborts
                                        | Some str \<Rightarrow>
                                            FT_replaceFileContents_set ft root loc oCurr
                                              (Some str) (mem 1))))))))"

text \<open>
  \<^verbatim>\<open>FT_stat\<close>. An output parameter is \<open>None\<close> when the caller passes
  \<^verbatim>\<open>NULL\<close> and otherwise the value stored where it points; the result gives the
  status and both stored values after the call.
\<close>

definition FT_stat ::
  "FT \<Rightarrow> string \<Rightarrow> bool option \<Rightarrow> nat option \<Rightarrow> (status \<times> bool option \<times> nat option) outcome" where
  "FT_stat ft pcPath pbIsFile pulSize =
     (if \<not> bIsInitialized ft then Returns (INITIALIZATION_ERROR, pbIsFile, pulSize)
      else
        (case Path_create pcPath of
           None \<Rightarrow> Returns (BAD_PATH, pbIsFile, pulSize)
         | Some oTargetPath \<Rightarrow>
             if Path_getDepth oTargetPath = 0 then Returns (BAD_PATH, pbIsFile, pulSize)
             else
               (case oRoot ft of
                  None \<Rightarrow> Returns (NO_SUCH_PATH, pbIsFile, pulSize)
                | Some root \<Rightarrow>
                    if Path_prefix (oPPath root) 1 = None \<or> \<not> Path_isPrefix (oPPath root) oTargetPath
                    then Returns (CONFLICTING_PATH, pbIsFile, pulSize)
                    else
                      (case FT_walk oTargetPath (Path_getDepth oTargetPath) 1 [] root of
                         Aborts \<Rightarrow> Aborts
                       | Returns NoPrefix \<Rightarrow> Returns (MEMORY_ERROR, pbIsFile, pulSize)
                       | Returns Absent \<Rightarrow> Returns (NO_SUCH_PATH, pbIsFile, pulSize)
                       | Returns (Located loc oCurr) \<Rightarrow>
                           if eType oCurr = FT_FILE then
                             Returns (SUCCESS, map_option (\<lambda>b. True) pbIsFile,
                               map_option
                                 (\<lambda>n. case Node_getContents oCurr of
                                         None \<Rightarrow> 0 | Some str \<Rightarrow> length str) pulSize)
                           else Returns (SUCCESS, map_option (\<lambda>b. False) pbIsFile, pulSize)))))"

text \<open>
  \<^verbatim>\<open>FT_init\<close> and \<^verbatim>\<open>FT_destroy\<close>.
\<close>

definition FT_init :: "FT \<Rightarrow> status \<times> FT" where
  "FT_init ft =
     (if bIsInitialized ft then (INITIALIZATION_ERROR, ft)
      else (SUCCESS, ft\<lparr>bIsInitialized := True, oRoot := None\<rparr>))"

definition FT_destroy :: "FT \<Rightarrow> status \<times> FT" where
  "FT_destroy ft =
     (if \<not> bIsInitialized ft then (INITIALIZATION_ERROR, ft)
      else (SUCCESS, ft\<lparr>oRoot := None, bIsInitialized := False\<rparr>))"

text \<open>
  \<^verbatim>\<open>FT_toString\<close> and its helper. \<^verbatim>\<open>qsort\<close> with \<^verbatim>\<open>compareNodes\<close> puts an
  array in ascending order of \<^verbatim>\<open>Node_compare\<close>; the model keeps nodes that compare
  equal in the order they had. \<^verbatim>\<open>FT_traverseToString\<close> gives the lines it adds
  to \<^verbatim>\<open>oLines\<close>; the allocations of the serialization are taken to succeed.
\<close>

fun qsort_insert :: "node \<Rightarrow> node list \<Rightarrow> node list" where
  "qsort_insert n [] = [n]"
| "qsort_insert n (m # ms) =
     (if Node_compare n m \<le> 0 then n # m # ms else m # qsort_insert n ms)"

definition qsort :: "node list \<Rightarrow> node list" where
  "qsort ns = foldr qsort_insert ns []"

lemma set_qsort_insert: "set (qsort_insert n ms) = insert n (set ms)"
  by (induction ms) auto

lemma set_qsort: "set (qsort ns) = set ns"
  by (induction ns) (simp_all add: qsort_def set_qsort_insert)

fun FT_joinLines :: "string list outcome list \<Rightarrow> string list outcome" where
  "FT_joinLines [] = Returns []"
| "FT_joinLines (Aborts # rest) = Aborts"
| "FT_joinLines (Returns ls # rest) =
     (case FT_joinLines rest of Aborts \<Rightarrow> Aborts | Returns ls' \<Rightarrow> Returns (ls @ ls'))"

lemma size_child: "c \<in> set cs \<Longrightarrow> size c < Suc (size_list size cs)"
  by (induction cs) auto

function FT_traverseToString :: "node \<Rightarrow> string list outcome" where
  "FT_traverseToString oNode =
     (case Node_getNumChildren oNode of
        Aborts \<Rightarrow> Aborts
      | Returns numChildren \<Rightarrow>
          (case FT_joinLines
                  (map FT_traverseToString
                     (qsort (filter (\<lambda>c. eType c = FT_FILE) (oChildren oNode)) @
                      qsort (filter (\<lambda>c. eType c \<noteq> FT_FILE) (oChildren oNode)))) of
             Aborts \<Rightarrow> Aborts
           | Returns ls \<Rightarrow> Returns (Node_toString oNode # ls)))"
  by pat_completeness auto
termination
proof (relation "measure size")
  show "wf (measure size)" by simp
next
  fix oNode :: node and numChildren :: nat and c :: node
  assume "c \<in> set (qsort (filter (\<lambda>c. eType c = FT_FILE) (oChildren oNode)) @
                   qsort (filter (\<lambda>c. eType c \<noteq> FT_FILE) (oChildren oNode)))"
  then have "c \<in> set (oChildren oNode)"
    by (auto simp: set_qsort)
  then have "size c < Suc (size_list size (oChildren oNode))"
    by (rule size_child)
  then show "(c, oNode) \<in> measure size"
    by (cases oNode) simp
qed

declare FT_traverseToString.simps [simp del]

definition FT_toString :: "FT \<Rightarrow> string option outcome" where
  "FT_toString ft =
     (if \<not> bIsInitialized ft then Returns None
      else
        (case oRoot ft of
           None \<Rightarrow> Returns None
         | Some root \<Rightarrow>
             (case FT_traverseToString root of
                Aborts \<Rightarrow> Aborts
              | Returns ls \<Rightarrow> Returns (Some (concat (map (\<lambda>l. l @ [CHR 0x0A]) ls))))))"

section \<open>The checker (checkerDT.c)\<close>

text \<open>
  Modelled from the spec: the node module of the Directory Tree (\<^verbatim>\<open>nodeDT.h\<close>) is
  not among the sources. The checker reads a node through \<^verbatim>\<open>Node_getPath\<close>,
  \<^verbatim>\<open>Node_getParent\<close>, \<^verbatim>\<open>Node_getNumChildren\<close> and \<^verbatim>\<open>Node_getChild\<close>
  only; a node of the Directory Tree has a path, a parent pointer and an array of
  child pointers. The checker compares pointers, so nodes live at addresses here: a
  node pointer is an address or \<^verbatim>\<open>NULL\<close>, and the heap gives the node stored at
  an address. Reading through an address that holds no node does not return, and
  neither does a path comparison on a \<^verbatim>\<open>NULL\<close> path.
\<close>

record dnode =
  dPath :: "Path_T option"
  dParent :: "nat option"
  dChildren :: "nat option list"

type_synonym heap = "nat \<Rightarrow> dnode option"

text \<open>
  \<^verbatim>\<open>size_t\<close> is taken to be 64 bits wide. Subtraction on it wraps around.
\<close>

definition SIZE_MAX :: nat where
  "SIZE_MAX = 2 ^ 64 - 1"

definition size_t_minus :: "nat \<Rightarrow> nat \<Rightarrow> nat" where
  "size_t_minus a b = (a + (SIZE_MAX + 1) - b) mod (SIZE_MAX + 1)"

definition DT_getPath :: "heap \<Rightarrow> nat option \<Rightarrow> Path_T option outcome" where
  "DT_getPath h oNNode =
     (case oNNode of
        None \<Rightarrow> Aborts
      | Some a \<Rightarrow> (case h a of None \<Rightarrow> Aborts | Some n \<Rightarrow> Returns (dPath n)))"

definition DT_getChild :: "nat option list \<Rightarrow> nat \<Rightarrow> status \<times> nat option" where
  "DT_getChild children ulChildID =
     (if ulChildID \<ge> length children then (NO_SUCH_PATH, None)
      else (SUCCESS, children ! ulChildID))"

definition DT_comparePath :: "Path_T option \<Rightarrow> Path_T option \<Rightarrow> int outcome" where
  "DT_comparePath oPPath1 oPPath2 =
     (case (oPPath1, oPPath2) of
        (Some p1, Some p2) \<Rightarrow> Returns (Path_comparePath p1 p2)
      | _ \<Rightarrow> Aborts)"

text \<open>
  The three loops of \<^verbatim>\<open>CheckerDT_Node_isValid\<close> over the children: every child
  is there and points back to the node; no two children have equal paths; neighbouring
  children are in order. The last loop runs while \<^verbatim>\<open>i < ulNumChildren - 1\<close>.
\<close>

fun CheckerDT_children_owned :: "heap \<Rightarrow> nat \<Rightarrow> nat option list \<Rightarrow> bool outcome" where
  "CheckerDT_children_owned h oNNode [] = Returns True"
| "CheckerDT_children_owned h oNNode (None # rest) = Returns False"
| "CheckerDT_children_owned h oNNode (Some oNChild # rest) =
     (case h oNChild of
        None \<Rightarrow> Aborts
      | Some child \<Rightarrow>
          if dParent child \<noteq> Some oNNode then Returns False
          else CheckerDT_children_owned h oNNode rest)"

fun CheckerDT_no_twin :: "heap \<Rightarrow> nat option \<Rightarrow> nat option list \<Rightarrow> bool outcome" where
  "CheckerDT_no_twin h oNChild1 [] = Returns True"
| "CheckerDT_no_twin h oNChild1 (oNChild2 # rest) =
     (case DT_getPath h oNChild1 of
        Aborts \<Rightarrow> Aborts
      | Returns p1 \<Rightarrow>
          (case DT_getPath h oNChild2 of
             Aborts \<Rightarrow> Aborts
           | Returns p2 \<Rightarrow>
               (case DT_comparePath p1 p2 of
                  Aborts \<Rightarrow> Aborts
                | Returns cmp \<Rightarrow>
                    if cmp = 0 then Returns False else CheckerDT_no_twin h oNChild1 rest)))"

fun CheckerDT_no_duplicates :: "heap \<Rightarrow> nat option list \<Rightarrow> bool outcome" where
  "CheckerDT_no_duplicates h [] = Returns True"
| "CheckerDT_no_duplicates h (oNChild1 # rest) =
     (case CheckerDT_no_twin h oNChild1 rest of
        Aborts \<Rightarrow> Aborts
      | Returns False \<Rightarrow> Returns False
      | Returns True \<Rightarrow> CheckerDT_no_duplicates h rest)"

function CheckerDT_in_order :: "heap \<Rightarrow> nat option list \<Rightarrow> nat \<Rightarrow> nat \<Rightarrow> bool outcome" where
  "CheckerDT_in_order h children i bound =
     (if i < bound then
        (case (DT_getChild children i, DT_getChild children (i + 1)) of
           ((SUCCESS, Some oneNode), (SUCCESS, Some twoNode)) \<Rightarrow>
             (case DT_getPath h (Some oneNode) of
                Aborts \<Rightarrow> Aborts
              | Returns None \<Rightarrow> Returns False
              | Returns (Some p1) \<Rightarrow>
                  (case DT_getPath h (Some twoNode) of
                     Aborts \<Rightarrow> Aborts
                   | Returns None \<Rightarrow> Returns False
                   | Returns (Some p2) \<Rightarrow>
                       if Path_comparePath p1 p2 > 0 then Returns False
                       else CheckerDT_in_order h children (Suc i) bound))
         | _ \<Rightarrow> Returns False)
      else Returns True)"
  by pat_completeness auto
termination
  by (relation "measure (\<lambda>(h, children, i, bound). bound - i)") auto

declare CheckerDT_in_order.simps [simp del]

definition CheckerDT_Node_children_valid :: "heap \<Rightarrow> nat \<Rightarrow> nat option list \<Rightarrow> bool outcome" where
  "CheckerDT_Node_children_valid h oNNode children =
     (case CheckerDT_children_owned h oNNode children of
        Aborts \<Rightarrow> Aborts
      | Returns False \<Rightarrow> Returns False
      | Returns True \<Rightarrow>
          (case CheckerDT_no_duplicates h children of
             Aborts \<Rightarrow> Aborts
           | Returns False \<Rightarrow> Returns False
           | Returns True \<Rightarrow>
               CheckerDT_in_order h children 0 (size_t_minus (length children) 1)))"

definition CheckerDT_Node_isValid :: "heap \<Rightarrow> nat option \<Rightarrow> bool outcome" where
  "CheckerDT_Node_isValid h oNNode =
     (case oNNode of
        None \<Rightarrow> Returns False
      | Some a \<Rightarrow>
          (case h a of
             None \<Rightarrow> Aborts
           | Some n \<Rightarrow>
               (case dPath n of
                  None \<Rightarrow> Returns False
                | Some oPNPath \<Rightarrow>
                    (case dParent n of
                       None \<Rightarrow> CheckerDT_Node_children_valid h a (dChildren n)
                     | Some oNParent \<Rightarrow>
                         (case DT_getPath h (Some oNParent) of
                            Aborts \<Rightarrow> Aborts
                          | Returns None \<Rightarrow> Returns False
                          | Returns (Some oPPPath) \<Rightarrow>
                              if Path_getSharedPrefixDepth oPNPath oPPPath
                                   \<noteq> size_t_minus (Path_getDepth oPNPath) 1
                              then Returns False
                              else CheckerDT_Node_children_valid h a (dChildren n))))))"

text \<open>
  \<^verbatim>\<open>CheckerDT_treeCheck\<close> follows child pointers, and on a heap with a cycle its
  recursion need not end. The model bounds the depth of the recursion by \<open>fuel\<close>;
  the result \<open>None\<close> says that the fuel ran out. Otherwise the result is the value
  returned and the counter \<^verbatim>\<open>*pulCount\<close> afterwards.
\<close>

fun CheckerDT_treeCheck :: "nat \<Rightarrow> heap \<Rightarrow> nat option \<Rightarrow> nat \<Rightarrow> (bool \<times> nat) outcome option"
  and CheckerDT_treeCheck_children ::
    "nat \<Rightarrow> heap \<Rightarrow> nat option list \<Rightarrow> nat \<Rightarrow> (bool \<times> nat) outcome option" where
  "CheckerDT_treeCheck fuel h None ulCount = Some (Returns (True, ulCount))"
| "CheckerDT_treeCheck 0 h (Some a) ulCount = None"
| "CheckerDT_treeCheck (Suc fuel) h (Some a) ulCount =
     (case CheckerDT_Node_isValid h (Some a) of
        Aborts \<Rightarrow> Some Aborts
      | Returns False \<Rightarrow> Some (Returns (False, ulCount))
      | Returns True \<Rightarrow>
          (case h a of
             None \<Rightarrow> Some Aborts
           | Some n \<Rightarrow> CheckerDT_treeCheck_children fuel h (dChildren n) (Suc ulCount)))"
| "CheckerDT_treeCheck_children fuel h [] ulCount = Some (Returns (True, ulCount))"
| "CheckerDT_treeCheck_children fuel h (None # rest) ulCount = Some (Returns (False, ulCount))"
| "CheckerDT_treeCheck_children fuel h (Some oNChild # rest) ulCount =
     (case CheckerDT_treeCheck fuel h (Some oNChild) ulCount of
        None \<Rightarrow> None
      | Some Aborts \<Rightarrow> Some Aborts
      | Some (Returns (False, ulCount')) \<Rightarrow> Some (Returns (False, ulCount'))
      | Some (Returns (True, ulCount')) \<Rightarrow> CheckerDT_treeCheck_children fuel h rest ulCount')"

definition CheckerDT_isValid :: "nat \<Rightarrow> heap \<Rightarrow> bool \<Rightarrow> nat option \<Rightarrow> nat \<Rightarrow> bool outcome option" where
  "CheckerDT_isValid fuel h bInit oNRoot ulCount =
     (if \<not> bInit then
        (if ulCount \<noteq> 0 then Some (Returns False)
         else if oNRoot \<noteq> None then Some (Returns False)
         else Some (Returns True))
      else if ulCount = 0 \<and> oNRoot \<noteq> None then Some (Returns False)
      else if ulCount > 0 \<and> oNRoot = None then Some (Returns False)
      else
        (case CheckerDT_treeCheck fuel h oNRoot 0 of
           None \<Rightarrow> None
         | Some Aborts \<Rightarrow> Some Aborts
         | Some (Returns (False, ulTraverseCount)) \<Rightarrow> Some (Returns False)
         | Some (Returns (True, ulTraverseCount)) \<Rightarrow>
             if ulTraverseCount \<noteq> ulCount then Some (Returns False)
             else Some (Returns True)))"

subsection \<open>The validity the checker is to decide\<close>

text \<open>
  For comparison with the code, the conditions as the specification words them. A node is
  valid when its parent's path is its own path less the last component, every child can be
  fetched and names the node as its parent, no two children share a path, and the children
  are in ascending order. A tree is valid when the count is 0 exactly when there is no root,
  every node visited from the root is valid, and the number of nodes visited is the count.
\<close>

definition Spec_child_owned :: "heap \<Rightarrow> nat \<Rightarrow> nat option \<Rightarrow> bool" where
  "Spec_child_owned h a c =
     (case c of
        None \<Rightarrow> False
      | Some ca \<Rightarrow> (case h ca of None \<Rightarrow> False | Some cn \<Rightarrow> dParent cn = Some a))"

definition Spec_child_path :: "heap \<Rightarrow> nat option \<Rightarrow> Path_T option" where
  "Spec_child_path h c =
     (case c of None \<Rightarrow> None | Some ca \<Rightarrow> (case h ca of None \<Rightarrow> None | Some cn \<Rightarrow> dPath cn))"

definition Spec_ascending :: "Path_T option \<Rightarrow> Path_T option \<Rightarrow> bool" where
  "Spec_ascending p q =
     (case (p, q) of (Some p', Some q') \<Rightarrow> Path_comparePath p' q' \<le> 0 | _ \<Rightarrow> False)"

definition Spec_Node_valid :: "heap \<Rightarrow> nat \<Rightarrow> bool" where
  "Spec_Node_valid h a =
     (case h a of
        None \<Rightarrow> False
      | Some n \<Rightarrow>
          (case dPath n of
             None \<Rightarrow> False
           | Some p \<Rightarrow>
               (case dParent n of
                  None \<Rightarrow> True
                | Some pa \<Rightarrow>
                    (case h pa of
                       None \<Rightarrow> False
                     | Some pn \<Rightarrow> p \<noteq> [] \<and> dPath pn = Some (butlast p))) \<and>
               list_all (Spec_child_owned h a) (dChildren n) \<and>
               distinct (map (Spec_child_path h) (dChildren n)) \<and>
               sorted_wrt Spec_ascending (map (Spec_child_path h) (dChildren n))))"

fun Spec_visit :: "nat \<Rightarrow> heap \<Rightarrow> nat \<Rightarrow> nat list option"
  and Spec_visit_all :: "nat \<Rightarrow> heap \<Rightarrow> nat option list \<Rightarrow> nat list option" where
  "Spec_visit 0 h a = None"
| "Spec_visit (Suc fuel) h a =
     (case h a of
        None \<Rightarrow> Some [a]
      | Some n \<Rightarrow> map_option (\<lambda>below. a # below) (Spec_visit_all fuel h (dChildren n)))"
| "Spec_visit_all fuel h [] = Some []"
| "Spec_visit_all fuel h (None # rest) = Spec_visit_all fuel h rest"
| "Spec_visit_all fuel h (Some c # rest) =
     (case Spec_visit fuel h c of
        None \<Rightarrow> None
      | Some first \<Rightarrow> map_option (\<lambda>others. first @ others) (Spec_visit_all fuel h rest))"

definition Spec_isValid :: "nat \<Rightarrow> heap \<Rightarrow> bool \<Rightarrow> nat option \<Rightarrow> nat \<Rightarrow> bool option" where
  "Spec_isValid fuel h bInit oNRoot ulCount =
     (if \<not> bInit then Some (ulCount = 0 \<and> oNRoot = None)
      else
        (case oNRoot of
           None \<Rightarrow> Some (ulCount = 0)
         | Some a \<Rightarrow>
             map_option
               (\<lambda>visited. ulCount \<noteq> 0 \<and> list_all (Spec_Node_valid h) visited \<and>
                           length visited = ulCount)
               (Spec_visit fuel h a)))"

section \<open>The serialization the specification describes\<close>







section \<open>Invariants and sample states\<close>

subsection \<open>Well-formed trees\<close>

text \<open>
  A path is valid when no component holds a slash; \<^verbatim>\<open>Path_create\<close> gives valid
  paths only.
\<close>

definition Path_valid :: "Path_T \<Rightarrow> bool" where
  "Path_valid oPPath' = list_all (\<lambda>c. \<not> list_ex (\<lambda>x. x = CHR ''/'') c) oPPath'"

text \<open>
  The invariants of the data model that \<^verbatim>\<open>Node_new\<close> enforces: the root is a
  directory whose path has depth 1, the path of a child is one deeper than the path of
  its parent, and a file has no children.
\<close>

fun Node_wf :: "nat \<Rightarrow> node \<Rightarrow> bool" where
  "Node_wf d (Node p t cs x) =
     (Path_valid p \<and> length p = d \<and> (t = FT_DIR \<or> cs = []) \<and> list_all (Node_wf (Suc d)) cs)"

definition FT_wf :: "FT \<Rightarrow> bool" where
  "FT_wf ft =
     (case oRoot ft of
        None \<Rightarrow> True
      | Some root \<Rightarrow> bIsInitialized ft \<and> eType root = FT_DIR \<and> Node_wf 1 root)"

text \<open>
  \<open>Node_nodes\<close> lists the nodes of a tree; \<open>FT_hasDir ft p\<close> says that the tree
  holds a directory with path \<open>p\<close>.
\<close>

fun Node_nodes :: "node \<Rightarrow> node list" where
  "Node_nodes (Node p t cs x) = Node p t cs x # concat (map Node_nodes cs)"

definition FT_hasDir :: "FT \<Rightarrow> Path_T \<Rightarrow> bool" where
  "FT_hasDir ft oPDir =
     (case oRoot ft of
        None \<Rightarrow> False
      | Some root \<Rightarrow> list_ex (\<lambda>n. oPPath n = oPDir \<and> eType n = FT_DIR) (Node_nodes root))"

subsection \<open>Reachable states\<close>

text \<open>
  One step is a call of a function of the File Tree that may change the state, with
  any arguments and any outcome of its allocations, provided the call returns. The reachable states
  are those that calls lead to from the initial values of the static variables.
\<close>

inductive FT_step :: "FT \<Rightarrow> FT \<Rightarrow> bool" where
  step_init: "FT_init ft = (s, ft') \<Longrightarrow> FT_step ft ft'"
| step_destroy: "FT_destroy ft = (s, ft') \<Longrightarrow> FT_step ft ft'"
| step_insertDir: "FT_insertDir ft pcPath mem = Returns (s, ft') \<Longrightarrow> FT_step ft ft'"
| step_insertFile:
    "FT_insertFile ft pcPath pvContents ulLength mem = Returns (s, ft') \<Longrightarrow> FT_step ft ft'"
| step_rmDir: "FT_rmDir ft pcPath = Returns (s, ft') \<Longrightarrow> FT_step ft ft'"
| step_rmFile: "FT_rmFile ft pcPath = Returns (s, ft') \<Longrightarrow> FT_step ft ft'"
| step_replaceFileContents:
    "FT_replaceFileContents ft pcPath pvNewContents ulNewLength mem = Returns (old, ft')
     \<Longrightarrow> FT_step ft ft'"

inductive FT_reachable :: "FT \<Rightarrow> bool" where
  reachable_start: "FT_reachable FT_start"
| reachable_step: "FT_reachable ft \<Longrightarrow> FT_step ft ft' \<Longrightarrow> FT_reachable ft'"

text \<open>
  No function ever links a node below the root: a reachable tree is empty or is a root
  directory of depth 1 with no children.
\<close>

definition FT_lone_root :: "FT \<Rightarrow> bool" where
  "FT_lone_root ft =
     (case oRoot ft of
        None \<Rightarrow> True
      | Some root \<Rightarrow>
          bIsInitialized ft \<and> eType root = FT_DIR \<and> oChildren root = [] \<and>
          Path_valid (oPPath root) \<and> length (oPPath root) = 1)"

subsection \<open>The order of the children\<close>

text \<open>
  The children of every directory have pairwise distinct paths and stand in strictly
  ascending order of \<^verbatim>\<open>Node_compare\<close>.
\<close>

fun Node_ascending :: "node \<Rightarrow> bool" where
  "Node_ascending (Node p t cs x) =
     (distinct (map oPPath cs) \<and> sorted_wrt (\<lambda>a b. Node_compare a b < 0) cs \<and>
      list_all Node_ascending cs)"

definition FT_children_ascending :: "FT \<Rightarrow> bool" where
  "FT_children_ascending ft =
     (case oRoot ft of None \<Rightarrow> True | Some root \<Rightarrow> Node_ascending root)"

subsection \<open>Content buffers\<close>

text \<open>
  Every file node of the tree has a content buffer: \<^verbatim>\<open>pcContents\<close> is not
  \<^verbatim>\<open>NULL\<close>. The property is stated for any tree, well-formed or not, and shown to
  be kept by every function of the File Tree.
\<close>

fun Node_files_allocated :: "node \<Rightarrow> bool" where
  "Node_files_allocated (Node p t cs x) =
     ((t = FT_DIR \<or> x \<noteq> None) \<and> list_all Node_files_allocated cs)"

definition FT_files_allocated :: "FT \<Rightarrow> bool" where
  "FT_files_allocated ft =
     (case oRoot ft of None \<Rightarrow> True | Some root \<Rightarrow> Node_files_allocated root)"

subsection \<open>Trees of directories\<close>


subsection \<open>Sample states\<close>

text \<open>
  \<open>no_failure\<close> is the run in which every allocation succeeds. \<open>FT_empty\<close> is
  the state after \<^verbatim>\<open>FT_init\<close>, \<open>FT_only_a\<close> the state after a following
  \<^verbatim>\<open>FT_insertDir("/a")\<close>.
\<close>

definition no_failure :: "nat \<Rightarrow> bool" where
  "no_failure k = True"

definition FT_empty :: FT where
  "FT_empty = \<lparr>bIsInitialized = True, oRoot = None\<rparr>"

definition FT_only_a :: FT where
  "FT_only_a = \<lparr>bIsInitialized = True, oRoot = Some (Node [''a''] FT_DIR [] None)\<rparr>"

text \<open>
  A tree that holds the file \<^verbatim>\<open>"/a/f"\<close> with contents \<^verbatim>\<open>"x"\<close> below the root
  \<^verbatim>\<open>"/a"\<close>.
\<close>

definition FT_with_file :: FT where
  "FT_with_file =
     \<lparr>bIsInitialized = True,
      oRoot = Some (Node [''a''] FT_DIR [Node [''a'', ''f''] FT_FILE [] (Some ''x'')] None)\<rparr>"

text \<open>
  The tree of the spec's ordering law: the root \<^verbatim>\<open>"/a"\<close> with the directory
  \<^verbatim>\<open>"/a/z"\<close> and the file \<^verbatim>\<open>"/a/y"\<close> below it.
\<close>

definition FT_a_z_y :: FT where
  "FT_a_z_y =
     \<lparr>bIsInitialized = True,
      oRoot = Some (Node [''a''] FT_DIR
                [Node [''a'', ''z''] FT_DIR [] None,
                 Node [''a'', ''y''] FT_FILE [] (Some [])] None)\<rparr>"

text \<open>
  A tree in which the traversal reaches a file: the root has a file child with the
  root's own path. \<^verbatim>\<open>Node_new\<close> makes no such child; the tree shows what the
  lookups return where their loop does find a node.
\<close>

definition FT_file_at_root_level :: FT where
  "FT_file_at_root_level =
     \<lparr>bIsInitialized = True,
      oRoot = Some (Node [''a''] FT_DIR [Node [''a''] FT_FILE [] (Some [])] None)\<rparr>"


text \<open>
  A tree in which an insertion reaches the statement that links the new node: the root
  \<^verbatim>\<open>"/a"\<close> has a directory child with the root's own path, which holds the
  directory \<^verbatim>\<open>"/a/z"\<close>. \<^verbatim>\<open>Node_new\<close> makes no such child, and no sequence of
  calls builds the tree. \<open>FT_a_a_z_b\<close> and \<open>FT_a_a_z_f\<close> are the tree with the directory
  and with the file \<^verbatim>\<open>"/a/b"\<close> after \<^verbatim>\<open>"/a/z"\<close>.
\<close>

definition FT_a_a_z :: FT where
  "FT_a_a_z =
     \<lparr>bIsInitialized = True,
      oRoot = Some (Node [''a''] FT_DIR
                [Node [''a''] FT_DIR [Node [''a'', ''z''] FT_DIR [] None] None] None)\<rparr>"



text \<open>
  The heap that holds one node: the root \<^verbatim>\<open>"/a"\<close>, with no parent and no children.
\<close>

definition heap_one :: heap where
  "heap_one = Map.empty(0 \<mapsto> \<lparr>dPath = Some [''a''], dParent = None, dChildren = []\<rparr>)"

section \<open>Facts about paths\<close>

text \<open>
  On valid paths the path string determines the depth, so two paths that compare equal
  have the same depth.
\<close>

lemma strcmp_0_iff: "strcmp xs ys = 0 \<longleftrightarrow> xs = ys"
  by (induction xs ys rule: strcmp.induct) auto

lemma slashes_Path_toString:
  "Path_valid p \<Longrightarrow> length (filter (\<lambda>x. x = CHR ''/'') (Path_toString p)) = length p"
  by (induction p) (auto simp: Path_valid_def Path_toString_def list_ex_iff filter_empty_conv)

lemma Path_comparePath_0_depth:
  assumes "Path_comparePath p q = 0" and "Path_valid p" and "Path_valid q"
  shows "length p = length q"
proof -
  from assms(1) have "Path_toString p = Path_toString q"
    by (simp add: Path_comparePath_def strcmp_0_iff)
  then have "length (filter (\<lambda>x. x = CHR ''/'') (Path_toString p))
      = length (filter (\<lambda>x. x = CHR ''/'') (Path_toString q))"
    by simp
  with assms(2,3) show ?thesis
    by (simp add: slashes_Path_toString)
qed

lemma Path_split_valid: "Path_valid (Path_split cs)"
  by (induction cs) (auto simp: Path_valid_def split: list.splits)

lemma Path_create_valid: "Path_create pcPath = Some p \<Longrightarrow> Path_valid p"
  by (auto simp: Path_create_def Path_split_valid Path_valid_def[of "[]"] split: list.splits if_splits)

lemma Path_valid_take: "Path_valid p \<Longrightarrow> Path_valid (take k p)"
  unfolding Path_valid_def list_all_iff by (auto dest: in_set_takeD)

lemma Path_create_a: "Path_create ''/a'' = Some [''a'']"
  by (simp add: Path_create_def)

lemma Path_create_a_b: "Path_create ''/a/b'' = Some [''a'', ''b'']"
  by (simp add: Path_create_def)

lemma Path_create_a_f: "Path_create ''/a/f'' = Some [''a'', ''f'']"
  by (simp add: Path_create_def)

lemma Path_create_a_b_c: "Path_create ''/a/b/c'' = Some [''a'', ''b'', ''c'']"
  by (simp add: Path_create_def)


lemma Path_comparePath_a_f_a: "Path_comparePath [''a'', ''f''] [''a''] = 1"
  by (simp add: Path_comparePath_def Path_toString_def)

section \<open>The traversal stops at the first level\<close>

text \<open>
  Both traversal loops start at the root and look among its children for the prefix of
  depth 1. In a well-formed tree every child of the root has a path of depth 2, so the
  search finds nothing: a lookup ends with "absent", an insertion of depth 2 or more
  with the status for a missing prefix.
\<close>

lemma FT_findChild_bound: "FT_findChild cs q = Some j \<Longrightarrow> j < length cs"
  by (induction cs arbitrary: j) (auto split: if_splits)

lemma FT_descend_no_children:
  "Suc 0 < depth \<Longrightarrow> depth \<le> length oNewPath \<Longrightarrow>
   FT_descend missing oNewPath depth (Suc 0) [] (Node p FT_DIR [] x) = Returns (Failed missing)"
  by (subst FT_descend.simps) (simp add: Path_prefix_def Node_getNumChildren_def)

lemma FT_descend_depth_1:
  "FT_descend missing oNewPath (Suc 0) (Suc 0) [] root = Returns (Parent [] root)"
  by (subst FT_descend.simps) simp

lemma FT_walk_no_children:
  "0 < depth \<Longrightarrow> depth \<le> length oTargetPath \<Longrightarrow>
   FT_walk oTargetPath depth (Suc 0) [] (Node p FT_DIR [] x) = Returns Absent"
  by (subst FT_walk.simps) (auto simp: Path_prefix_def Node_getNumChildren_def Suc_le_eq)

lemma FT_walk_lone:
  "q \<noteq> [] \<Longrightarrow> FT_walk q (length q) (Suc 0) [] (Node p FT_DIR [] x) = Returns Absent"
  by (rule FT_walk_no_children) simp_all

lemma FT_walk_with_file:
  "FT_walk [''a'', ''f''] (Suc (Suc 0)) (Suc 0) []
     (Node [''a''] FT_DIR [Node [''a'', ''f''] FT_FILE [] (Some ''x'')] None) = Returns Absent"
  by (subst FT_walk.simps)
    (simp add: Path_prefix_def Node_getNumChildren_def Path_comparePath_a_f_a)

lemma FT_walk_file_at_root_level:
  "FT_walk [''a''] (Suc 0) (Suc 0) [] (Node [''a''] FT_DIR [Node [''a''] FT_FILE [] (Some [])] None)
     = Returns (Located [0] (Node [''a''] FT_FILE [] (Some [])))"
  by (simp add: FT_walk.simps Path_prefix_def Node_getNumChildren_def Path_comparePath_def
      strcmp_0_iff)

lemma FT_findChild_other_depth:
  "list_all (Node_wf d) cs \<Longrightarrow> Path_valid q \<Longrightarrow> length q \<noteq> d \<Longrightarrow> FT_findChild cs q = None"
proof (induction cs)
  case Nil
  then show ?case by simp
next
  case (Cons c cs)
  obtain p t ds x where c: "c = Node p t ds x" by (cases c)
  from Cons.prems c have "Path_valid p" "length p = d" by simp_all
  with Cons.prems(2,3) have "Path_comparePath p q \<noteq> 0"
    using Path_comparePath_0_depth[of p q] by auto
  with Cons c show ?case by simp
qed

lemma FT_descend_wf:
  assumes "Node_wf 1 root" "eType root = FT_DIR" "Path_valid p" "1 < length p"
  shows "FT_descend missing p (length p) 1 [] root = Returns (Failed missing)"
proof -
  obtain q t cs x where r: "root = Node q t cs x" by (cases root)
  with assms have cs: "list_all (Node_wf 2) cs" by (simp add: numeral_2_eq_2)
  have "Path_valid (take 1 p)" using assms(3) by (rule Path_valid_take)
  moreover have "length (take 1 p) \<noteq> 2" by simp
  ultimately have "FT_findChild cs (take 1 p) = None"
    using cs by (rule FT_findChild_other_depth[rotated])
  with assms r show ?thesis
    by (subst FT_descend.simps) (simp add: Path_prefix_def Node_getNumChildren_def)
qed

lemma FT_walk_wf:
  assumes "Node_wf 1 root" "eType root = FT_DIR" "Path_valid p" "0 < length p"
  shows "FT_walk p (length p) 1 [] root = Returns Absent"
proof -
  obtain q t cs x where r: "root = Node q t cs x" by (cases root)
  with assms have cs: "list_all (Node_wf 2) cs" by (simp add: numeral_2_eq_2)
  have "Path_valid (take 1 p)" using assms(3) by (rule Path_valid_take)
  moreover have "length (take 1 p) \<noteq> 2" by simp
  ultimately have "FT_findChild cs (take 1 p) = None"
    using cs by (rule FT_findChild_other_depth[rotated])
  with assms r show ?thesis
    by (subst FT_walk.simps) (auto simp: Path_prefix_def Node_getNumChildren_def Suc_le_eq)
qed

lemma FT_wf_rootE:
  assumes "FT_wf ft" and "oRoot ft = Some root"
  obtains p cs x where "root = Node p FT_DIR cs x" "Path_valid p" "length p = 1"
    "list_all (Node_wf 2) cs" "bIsInitialized ft"
proof -
  obtain p t cs x where "root = Node p t cs x" by (cases root)
  with assms show ?thesis
    by (intro that[of p cs x]) (simp_all add: FT_wf_def numeral_2_eq_2)
qed

lemma FT_walk_wf_root:
  assumes "FT_wf ft" and "oRoot ft = Some root" and "Path_create pcPath = Some q" and "q \<noteq> []"
  shows "FT_walk q (length q) (Suc 0) [] root = Returns Absent"
proof -
  from assms(1,2) have "Node_wf 1 root" "eType root = FT_DIR"
    by (auto elim!: FT_wf_rootE simp: numeral_2_eq_2)
  moreover from assms(3) have "Path_valid q" by (rule Path_create_valid)
  ultimately show ?thesis using assms(4) FT_walk_wf[of root q] by simp
qed

lemma FT_init_start: "FT_init FT_start = (SUCCESS, FT_empty)"
  by (simp add: FT_init_def FT_start_def FT_empty_def)

lemma FT_insertDir_a: "FT_insertDir FT_empty ''/a'' no_failure = Returns (SUCCESS, FT_only_a)"
  by (simp add: FT_insertDir_def FT_empty_def FT_only_a_def Path_create_a Path_getDepth_def
      Node_new_def Node_alloc_def no_failure_def)

section \<open>Lookup after insertion (C1)\<close>

text \<open>
  In a well-formed tree both lookups return \<^verbatim>\<open>FALSE\<close> for every path.
\<close>

lemma FT_containsDir_wf: "FT_wf ft \<Longrightarrow> FT_containsDir ft pcPath = Returns False"
  by (auto simp: FT_containsDir_def Path_getDepth_def FT_walk_wf_root split: option.splits)

lemma FT_containsFile_wf: "FT_wf ft \<Longrightarrow> FT_containsFile ft pcPath = Returns False"
  by (auto simp: FT_containsFile_def Path_getDepth_def FT_walk_wf_root split: option.splits)

text \<open>
  C1. After \<^verbatim>\<open>FT_init\<close> and a successful \<^verbatim>\<open>FT_insertDir("/a")\<close>, the call
  \<^verbatim>\<open>FT_containsDir("/a")\<close> returns \<^verbatim>\<open>FALSE\<close>, where the claim says
  \<^verbatim>\<open>TRUE\<close>: the traversal starts at the root and looks for the prefix of depth 1,
  the root's own path, among the root's children.
\<close>

theorem FT_containsDir_after_insertDir:
  "FT_init FT_start = (SUCCESS, FT_empty) \<and>
   FT_insertDir FT_empty ''/a'' no_failure = Returns (SUCCESS, FT_only_a) \<and>
   FT_containsDir FT_only_a ''/a'' = Returns False"
proof (intro conjI)
  show "FT_init FT_start = (SUCCESS, FT_empty)"
    by (rule FT_init_start)
  show "FT_insertDir FT_empty ''/a'' no_failure = Returns (SUCCESS, FT_only_a)"
    by (rule FT_insertDir_a)
  show "FT_containsDir FT_only_a ''/a'' = Returns False"
    by (simp add: FT_containsDir_def FT_only_a_def Path_create_a Path_getDepth_def
        FT_walk.simps Path_prefix_def Node_getNumChildren_def)
qed

section \<open>File insertion below a missing directory (C2)\<close>

text \<open>
  In a well-formed tree \<^verbatim>\<open>FT_insertFile\<close> returns \<^verbatim>\<open>CONFLICTING_PATH\<close> for
  every path of depth 2 or more, whatever the tree holds.
\<close>

lemma FT_insertFile_deep:
  assumes init: "bIsInitialized ft" and wf: "FT_wf ft"
    and path: "Path_create pcPath = Some oNewPath" and deep: "2 \<le> Path_getDepth oNewPath"
    and mem: "mem 0"
  shows "FT_insertFile ft pcPath pvContents ulLength mem =
           Returns (CONFLICTING_PATH,
             case oRoot ft of
               None \<Rightarrow> ft\<lparr>oRoot := Some (Node (take 1 oNewPath) FT_DIR [] None)\<rparr>
             | Some root \<Rightarrow> ft)"
proof -
  have valid: "Path_valid oNewPath" using path by (rule Path_create_valid)
  have len: "1 < length oNewPath" using deep by (simp add: Path_getDepth_def)
  show ?thesis
  proof (cases "oRoot ft")
    case None
    have new: "Node_new (take 1 oNewPath) None FT_DIR (mem 0)
                 = Returns (Inr (Node (take 1 oNewPath) FT_DIR [] None))"
      using len mem by (simp add: Node_new_def Node_alloc_def Path_getDepth_def)
    have "FT_descend CONFLICTING_PATH oNewPath (length oNewPath) 1 []
            (Node (take 1 oNewPath) FT_DIR [] None) = Returns (Failed CONFLICTING_PATH)"
      using valid len by (intro FT_descend_wf) (simp_all add: Path_valid_take)
    then have "FT_insertFile_from (ft\<lparr>oRoot := Some (Node (take 1 oNewPath) FT_DIR [] None)\<rparr>)
            (Node (take 1 oNewPath) FT_DIR [] None) oNewPath pvContents ulLength mem
          = Returns (CONFLICTING_PATH, ft\<lparr>oRoot := Some (Node (take 1 oNewPath) FT_DIR [] None)\<rparr>)"
      by (simp add: FT_insertFile_from_def Path_getDepth_def)
    with None init path len new show ?thesis
      by (auto simp: FT_insertFile_def Path_getDepth_def Path_prefix_def)
  next
    case (Some root)
    with wf have "Node_wf 1 root" "eType root = FT_DIR"
      by (simp_all add: FT_wf_def)
    then have "FT_descend CONFLICTING_PATH oNewPath (length oNewPath) 1 [] root
                 = Returns (Failed CONFLICTING_PATH)"
      using valid len by (rule FT_descend_wf)
    then have "FT_insertFile_from ft root oNewPath pvContents ulLength mem
                 = Returns (CONFLICTING_PATH, ft)"
      by (simp add: FT_insertFile_from_def Path_getDepth_def)
    with Some init path len show ?thesis
      by (auto simp: FT_insertFile_def Path_getDepth_def)
  qed
qed

text \<open>
  C2. After \<^verbatim>\<open>FT_init\<close> and \<^verbatim>\<open>FT_insertDir("/a")\<close> the tree holds no directory
  \<^verbatim>\<open>"/a/b"\<close>, and \<^verbatim>\<open>FT_insertFile("/a/b/c", "x", 2)\<close> returns
  \<^verbatim>\<open>CONFLICTING_PATH\<close>, where the claim says \<^verbatim>\<open>NO_SUCH_PATH\<close>, the code that
  \<^verbatim>\<open>FT_insertDir("/a/b/c")\<close> returns in the same state.
\<close>

theorem FT_insertFile_returns_CONFLICTING_PATH:
  "FT_insertDir FT_empty ''/a'' no_failure = Returns (SUCCESS, FT_only_a) \<and>
   \<not> FT_hasDir FT_only_a [''a'', ''b''] \<and>
   FT_insertFile FT_only_a ''/a/b/c'' (Some [CHR ''x'', CHR 0x00]) 2 no_failure
     = Returns (CONFLICTING_PATH, FT_only_a) \<and>
   FT_insertFile FT_only_a ''/a/b/c'' (Some [CHR ''x'', CHR 0x00]) 2 no_failure
     \<noteq> Returns (NO_SUCH_PATH, FT_only_a) \<and>
   FT_insertDir FT_only_a ''/a/b/c'' no_failure = Returns (NO_SUCH_PATH, FT_only_a)"
proof (intro conjI)
  show "FT_insertDir FT_empty ''/a'' no_failure = Returns (SUCCESS, FT_only_a)"
    by (rule FT_insertDir_a)
  show "\<not> FT_hasDir FT_only_a [''a'', ''b'']"
    by (simp add: FT_hasDir_def FT_only_a_def)
  show ins: "FT_insertFile FT_only_a ''/a/b/c'' (Some [CHR ''x'', CHR 0x00]) 2 no_failure
          = Returns (CONFLICTING_PATH, FT_only_a)"
    by (simp add: FT_insertFile_def FT_insertFile_from_def FT_only_a_def
        Path_create_a_b_c Path_getDepth_def FT_descend_no_children)
  show "FT_insertFile FT_only_a ''/a/b/c'' (Some [CHR ''x'', CHR 0x00]) 2 no_failure
          \<noteq> Returns (NO_SUCH_PATH, FT_only_a)"
    by (simp add: ins)
  show "FT_insertDir FT_only_a ''/a/b/c'' no_failure = Returns (NO_SUCH_PATH, FT_only_a)"
    by (simp add: FT_insertDir_def FT_only_a_def Path_create_a_b_c Path_getDepth_def
        FT_descend_no_children)
qed

section \<open>Inserting a path twice (C3)\<close>

text \<open>
  Once a well-formed tree has a root, no \<^verbatim>\<open>FT_insertDir\<close> succeeds, and
  \<^verbatim>\<open>FT_insertFile\<close> succeeds on no well-formed tree at all.
\<close>

lemma FT_insertDir_wf_present:
  assumes wf: "FT_wf ft" and root: "oRoot ft = Some root"
  shows "FT_insertDir ft pcPath mem \<noteq> Returns (SUCCESS, ft')"
proof (cases "Path_create pcPath")
  case None
  then show ?thesis by (simp add: FT_insertDir_def)
next
  case (Some q)
  then have valid: "Path_valid q" by (rule Path_create_valid)
  from wf root obtain p cs x where r: "root = Node p FT_DIR cs x" "length p = 1"
    "list_all (Node_wf 2) cs" "Node_wf 1 root"
    by (auto elim!: FT_wf_rootE simp: numeral_2_eq_2)
  consider "length q = 0" | "length q = 1" | "1 < length q" by linarith
  then show ?thesis
  proof cases
    case 1
    with Some show ?thesis by (simp add: FT_insertDir_def Path_getDepth_def)
  next
    case 2
    then have "FT_descend NO_SUCH_PATH q (length q) 1 [] root = Returns (Parent [] root)"
      using FT_descend_depth_1 by simp
    moreover have "FT_findChild cs q = None"
      using r(3) valid 2 by (intro FT_findChild_other_depth[where d=2]) simp_all
    ultimately show ?thesis using Some root r 2
      by (simp add: FT_insertDir_def FT_insertDir_link_def Path_getDepth_def
          Node_getNumChildren_def Node_new_def)
  next
    case 3
    with r valid have "FT_descend NO_SUCH_PATH q (length q) 1 [] root = Returns (Failed NO_SUCH_PATH)"
      by (intro FT_descend_wf) simp_all
    with Some root 3 show ?thesis
      by (simp add: FT_insertDir_def Path_getDepth_def)
  qed
qed

lemma FT_insertFile_wf:
  assumes wf: "FT_wf ft"
  shows "FT_insertFile ft pcPath pvContents ulLength mem \<noteq> Returns (SUCCESS, ft')"
proof (cases "Path_create pcPath")
  case None
  then show ?thesis by (simp add: FT_insertFile_def)
next
  case (Some q)
  then have valid: "Path_valid q" by (rule Path_create_valid)
  consider "\<not> bIsInitialized ft" | "length q = 0"
    | "bIsInitialized ft" "length q = 1" | "bIsInitialized ft" "1 < length q" by linarith
  then show ?thesis
  proof cases
    case 1
    then show ?thesis by (simp add: FT_insertFile_def)
  next
    case 2
    with Some show ?thesis by (simp add: FT_insertFile_def Path_getDepth_def)
  next
    case 3
    show ?thesis
    proof (cases "oRoot ft")
      case None
      with Some 3 show ?thesis by (simp add: FT_insertFile_def Path_getDepth_def)
    next
      case (Some root)
      with wf obtain p cs x where r: "root = Node p FT_DIR cs x" "length p = 1"
        "list_all (Node_wf 2) cs"
        by (auto elim!: FT_wf_rootE)
      from 3 have "FT_descend CONFLICTING_PATH q (length q) 1 [] root = Returns (Parent [] root)"
        using FT_descend_depth_1 by simp
      moreover have "FT_findChild cs q = None"
        using r(3) valid 3 by (intro FT_findChild_other_depth[where d=2]) simp_all
      ultimately show ?thesis using \<open>Path_create pcPath = Some q\<close> Some r 3
        by (simp add: FT_insertFile_def FT_insertFile_from_def FT_insertFile_link_def
            Path_getDepth_def Node_getNumChildren_def Node_new_def)
    qed
  next
    case 4
    show ?thesis
    proof (cases "mem 0")
      case True
      with 4 wf Some show ?thesis
        using FT_insertFile_deep[of ft pcPath q mem pvContents ulLength]
        by (simp add: Path_getDepth_def)
    next
      case False
      show ?thesis
      proof (cases "oRoot ft")
        case None
        with False Some 4 show ?thesis
          by (auto simp: FT_insertFile_def Path_getDepth_def Path_prefix_def Node_new_def
              Node_alloc_def)
      next
        case (Some root)
        with wf have r: "Node_wf 1 root" "eType root = FT_DIR"
          by (simp_all add: FT_wf_def)
        with 4 valid have "FT_descend CONFLICTING_PATH q (length q) 1 [] root
                             = Returns (Failed CONFLICTING_PATH)"
          by (intro FT_descend_wf) simp_all
        with \<open>Path_create pcPath = Some q\<close> Some 4 show ?thesis
          by (auto simp: FT_insertFile_def FT_insertFile_from_def Path_getDepth_def)
      qed
    qed
  qed
qed

text \<open>
  C3. \<^verbatim>\<open>"/a"\<close> is in the tree after \<^verbatim>\<open>FT_insertDir("/a")\<close>. Inserting it again,
  as a directory or as a file, returns \<^verbatim>\<open>NO_SUCH_PATH\<close>, where the claim says
  \<^verbatim>\<open>ALREADY_IN_TREE\<close>; the tree is left as it was.
\<close>

theorem FT_insert_twice:
  "FT_insertDir FT_empty ''/a'' no_failure = Returns (SUCCESS, FT_only_a) \<and>
   FT_insertDir FT_only_a ''/a'' no_failure = Returns (NO_SUCH_PATH, FT_only_a) \<and>
   FT_insertFile FT_only_a ''/a'' (Some [CHR ''x'', CHR 0x00]) 2 no_failure
     = Returns (NO_SUCH_PATH, FT_only_a)"
proof (intro conjI)
  show "FT_insertDir FT_empty ''/a'' no_failure = Returns (SUCCESS, FT_only_a)"
    by (rule FT_insertDir_a)
  show "FT_insertDir FT_only_a ''/a'' no_failure = Returns (NO_SUCH_PATH, FT_only_a)"
    by (simp add: FT_insertDir_def FT_insertDir_link_def FT_only_a_def Path_create_a
        Path_getDepth_def FT_descend_depth_1 Node_getNumChildren_def Node_new_def)
  show "FT_insertFile FT_only_a ''/a'' (Some [CHR ''x'', CHR 0x00]) 2 no_failure
          = Returns (NO_SUCH_PATH, FT_only_a)"
    by (simp add: FT_insertFile_def FT_insertFile_from_def FT_insertFile_link_def
        FT_only_a_def Path_create_a Path_getDepth_def FT_descend_depth_1
        Node_getNumChildren_def Node_new_def)
qed

section \<open>Failed insertions (C4)\<close>

text \<open>
  A failed \<^verbatim>\<open>FT_insertDir\<close> leaves the state as it was. A failed
  \<^verbatim>\<open>FT_insertFile\<close> leaves it as it was too, unless the tree was empty: then the
  root directory made for the insertion may remain.
\<close>

lemma FT_insertDir_failure_unchanged:
  "FT_insertDir ft pcPath mem = Returns (s, ft') \<Longrightarrow> s \<noteq> SUCCESS \<Longrightarrow> ft' = ft"
  by (auto simp: FT_insertDir_def FT_insertDir_link_def
      split: if_splits option.splits outcome.splits descent.splits sum.splits)

lemma FT_insertFile_link_failure_unchanged:
  "FT_insertFile_link ft root oNewPath loc oCurr pvContents ulLength mem = Returns (s, ft')
   \<Longrightarrow> s \<noteq> SUCCESS \<Longrightarrow> ft' = ft"
  by (auto simp: FT_insertFile_link_def split: if_splits outcome.splits sum.splits)

lemma FT_insertFile_from_failure_unchanged:
  "FT_insertFile_from ft root oNewPath pvContents ulLength mem = Returns (s, ft')
   \<Longrightarrow> s \<noteq> SUCCESS \<Longrightarrow> ft' = ft"
  by (auto simp: FT_insertFile_from_def dest: FT_insertFile_link_failure_unchanged
      split: outcome.splits descent.splits)

lemma FT_insertFile_failure:
  assumes "FT_insertFile ft pcPath pvContents ulLength mem = Returns (s, ft')" and "s \<noteq> SUCCESS"
  shows "ft' = ft \<or>
         (oRoot ft = None \<and>
          (\<exists>oNewPath. Path_create pcPath = Some oNewPath \<and>
             ft' = ft\<lparr>oRoot := Some (Node (take 1 oNewPath) FT_DIR [] None)\<rparr>))"
  using assms
  by (auto simp: FT_insertFile_def Path_prefix_def Node_new_def Node_alloc_def
      dest: FT_insertFile_from_failure_unchanged
      split: if_splits option.splits outcome.splits sum.splits)

text \<open>
  C4. On the empty tree \<^verbatim>\<open>FT_insertFile("/a/b", ...)\<close> returns
  \<^verbatim>\<open>CONFLICTING_PATH\<close>, and the root directory \<^verbatim>\<open>"/a"\<close> it made on the way stays
  in the tree: the nodes reachable from the root are not what they were before the call.
\<close>

theorem FT_insertFile_failure_keeps_root:
  "oRoot FT_empty = None \<and>
   FT_insertFile FT_empty ''/a/b'' (Some [CHR ''x'', CHR 0x00]) 2 no_failure
     = Returns (CONFLICTING_PATH, FT_only_a) \<and>
   oRoot FT_only_a = Some (Node [''a''] FT_DIR [] None)"
  by (simp add: FT_insertFile_def FT_insertFile_from_def FT_empty_def FT_only_a_def
      Path_create_a_b Path_getDepth_def Path_prefix_def Node_new_def Node_alloc_def
      no_failure_def FT_descend_no_children)

section \<open>The reachable trees\<close>

text \<open>
  Every function keeps the tree empty or a lone root, so every reachable tree is one.
\<close>

lemma FT_lone_root_cases:
  assumes "FT_lone_root ft"
  obtains "oRoot ft = None"
  | p x where "oRoot ft = Some (Node p FT_DIR [] x)" "length p = 1" "Path_valid p" "bIsInitialized ft"
proof (cases "oRoot ft")
  case None
  then show ?thesis by (rule that(1))
next
  case (Some root)
  obtain p t cs x where "root = Node p t cs x" by (cases root)
  with Some assms show ?thesis
    by (intro that(2)[of p x]) (simp_all add: FT_lone_root_def)
qed

lemma FT_lone_root_wf: "FT_lone_root ft \<Longrightarrow> FT_wf ft"
  by (erule FT_lone_root_cases) (simp_all add: FT_wf_def)

lemma FT_init_lone: "FT_init ft = (s, ft') \<Longrightarrow> FT_lone_root ft \<Longrightarrow> FT_lone_root ft'"
  by (auto simp: FT_init_def FT_lone_root_def split: if_splits)

lemma FT_destroy_lone: "FT_destroy ft = (s, ft') \<Longrightarrow> FT_lone_root ft \<Longrightarrow> FT_lone_root ft'"
  by (auto simp: FT_destroy_def FT_lone_root_def split: if_splits)

lemma FT_insertDir_lone:
  assumes "FT_insertDir ft pcPath mem = Returns (s, ft')" and "FT_lone_root ft"
  shows "FT_lone_root ft'"
  using assms(2)
proof (cases rule: FT_lone_root_cases)
  case 1
  with assms show ?thesis
    by (auto simp: FT_insertDir_def FT_lone_root_def Node_new_def Node_alloc_def
        Path_getDepth_def Path_create_valid split: if_splits option.splits)
next
  case (2 p x)
  show ?thesis
  proof (cases "Path_create pcPath")
    case None
    with assms show ?thesis by (auto simp: FT_insertDir_def split: if_splits)
  next
    case (Some q)
    then have valid: "Path_valid q" by (rule Path_create_valid)
    consider "length q = 0" | "length q = 1" | "1 < length q" by linarith
    then show ?thesis
    proof cases
      case 1
      with assms Some show ?thesis
        by (auto simp: FT_insertDir_def Path_getDepth_def split: if_splits)
    next
      case 2
      then have "FT_descend NO_SUCH_PATH q (length q) 1 [] (Node p FT_DIR [] x)
                   = Returns (Parent [] (Node p FT_DIR [] x))"
        using FT_descend_depth_1 by simp
      with assms Some 2 \<open>oRoot ft = _\<close> \<open>length p = 1\<close> show ?thesis
        by (auto simp: FT_insertDir_def FT_insertDir_link_def Path_getDepth_def
            Node_getNumChildren_def Node_new_def split: if_splits)
    next
      case 3
      then have "FT_descend NO_SUCH_PATH q (length q) 1 [] (Node p FT_DIR [] x)
                   = Returns (Failed NO_SUCH_PATH)"
        using FT_descend_no_children by simp
      with assms Some 3 \<open>oRoot ft = _\<close> show ?thesis
        by (auto simp: FT_insertDir_def Path_getDepth_def split: if_splits)
    qed
  qed
qed

lemma FT_insertFile_lone:
  assumes "FT_insertFile ft pcPath pvContents ulLength mem = Returns (s, ft')"
    and "FT_lone_root ft"
  shows "FT_lone_root ft'"
proof (cases "Path_create pcPath")
  case None
  with assms show ?thesis by (auto simp: FT_insertFile_def split: if_splits)
next
  case (Some q)
  then have valid: "Path_valid q" by (rule Path_create_valid)
  consider "\<not> bIsInitialized ft" | "bIsInitialized ft" "length q = 0"
    | "bIsInitialized ft" "length q = 1" | "bIsInitialized ft" "1 < length q"
    by linarith
  then show ?thesis
  proof cases
    case 1
    with assms show ?thesis by (simp add: FT_insertFile_def)
  next
    case 2
    with assms Some show ?thesis by (simp add: FT_insertFile_def Path_getDepth_def)
  next
    case 3
    from assms(2) show ?thesis
    proof (cases rule: FT_lone_root_cases)
      case 1
      with assms Some 3 show ?thesis by (simp add: FT_insertFile_def Path_getDepth_def)
    next
      case (2 p x)
      from 3 have "FT_descend CONFLICTING_PATH q (length q) 1 [] (Node p FT_DIR [] x)
                   = Returns (Parent [] (Node p FT_DIR [] x))"
        using FT_descend_depth_1 by simp
      with assms Some 3 2 show ?thesis
        by (auto simp: FT_insertFile_def FT_insertFile_from_def FT_insertFile_link_def
            Path_getDepth_def Node_getNumChildren_def Node_new_def split: if_splits)
    qed
  next
    case 4
    show ?thesis
    proof (cases "mem 0 \<or> oRoot ft \<noteq> None")
      case True
      have "FT_insertFile ft pcPath pvContents ulLength mem =
           Returns (CONFLICTING_PATH,
             case oRoot ft of
               None \<Rightarrow> ft\<lparr>oRoot := Some (Node (take 1 q) FT_DIR [] None)\<rparr>
             | Some root \<Rightarrow> ft)"
      proof (cases "oRoot ft")
        case None
        with True have "mem 0" by simp
        with 4 assms(2) Some show ?thesis
          by (intro FT_insertFile_deep FT_lone_root_wf) (simp_all add: Path_getDepth_def)
      next
        case (Some root)
        from assms(2) Some obtain p x where r: "oRoot ft = Some (Node p FT_DIR [] x)"
          by (cases rule: FT_lone_root_cases) auto
        have "FT_descend CONFLICTING_PATH q (length q) 1 [] (Node p FT_DIR [] x)
                   = Returns (Failed CONFLICTING_PATH)"
          using 4 FT_descend_no_children by simp
        with 4 r \<open>Path_create pcPath = Some q\<close> show ?thesis
          by (auto simp: FT_insertFile_def FT_insertFile_from_def Path_getDepth_def)
      qed
      with assms 4 valid show ?thesis
        by (auto simp: FT_lone_root_def Path_valid_take split: option.splits)
    next
      case False
      with assms Some 4 show ?thesis
        by (auto simp: FT_insertFile_def Path_getDepth_def Path_prefix_def Node_new_def
            Node_alloc_def split: if_splits)
    qed
  qed
qed

lemma FT_rmDir_lone:
  assumes "FT_rmDir ft pcPath = Returns (s, ft')" and "FT_lone_root ft"
  shows "FT_lone_root ft'"
  using assms(2)
proof (cases rule: FT_lone_root_cases)
  case 1
  with assms show ?thesis
    by (auto simp: FT_rmDir_def split: if_splits option.splits)
next
  case (2 p x)
  with assms show ?thesis
    by (auto simp: FT_rmDir_def Path_getDepth_def FT_walk_lone FT_lone_root_def
        split: if_splits option.splits)
qed

lemma FT_rmFile_lone:
  assumes "FT_rmFile ft pcPath = Returns (s, ft')" and "FT_lone_root ft"
  shows "FT_lone_root ft'"
  using assms(2)
proof (cases rule: FT_lone_root_cases)
  case 1
  with assms show ?thesis
    by (auto simp: FT_rmFile_def split: if_splits option.splits)
next
  case (2 p x)
  with assms show ?thesis
    by (auto simp: FT_rmFile_def Path_getDepth_def FT_walk_lone
        split: if_splits option.splits)
qed

lemma FT_replaceFileContents_lone:
  assumes "FT_replaceFileContents ft pcPath pvNewContents ulNewLength mem = Returns (old, ft')"
    and "FT_lone_root ft"
  shows "FT_lone_root ft'"
  using assms(2)
proof (cases rule: FT_lone_root_cases)
  case 1
  with assms show ?thesis
    by (auto simp: FT_replaceFileContents_def split: if_splits option.splits)
next
  case (2 p x)
  with assms show ?thesis
    by (auto simp: FT_replaceFileContents_def Path_getDepth_def FT_walk_lone
        split: if_splits option.splits)
qed

lemma FT_step_lone: "FT_step ft ft' \<Longrightarrow> FT_lone_root ft \<Longrightarrow> FT_lone_root ft'"
  by (induction rule: FT_step.induct)
    (auto intro: FT_init_lone FT_destroy_lone FT_insertDir_lone FT_insertFile_lone
       FT_rmDir_lone FT_rmFile_lone FT_replaceFileContents_lone)

lemma FT_reachable_lone: "FT_reachable ft \<Longrightarrow> FT_lone_root ft"
proof (induction rule: FT_reachable.induct)
  case reachable_start
  show ?case by (simp add: FT_lone_root_def FT_start_def)
next
  case (reachable_step ft ft')
  then show ?case by (auto intro: FT_step_lone)
qed

lemma FT_lone_root_ascending: "FT_lone_root ft \<Longrightarrow> FT_children_ascending ft"
  by (erule FT_lone_root_cases) (simp_all add: FT_children_ascending_def)


lemma FT_insertDir_wf_success:
  assumes "FT_wf ft" and "FT_insertDir ft pcPath mem = Returns (SUCCESS, ft')"
  shows "FT_lone_root ft'"
proof (cases "oRoot ft")
  case None
  then have "FT_lone_root ft" by (simp add: FT_lone_root_def)
  with assms(2) show ?thesis by (rule FT_insertDir_lone)
next
  case (Some root)
  with assms show ?thesis using FT_insertDir_wf_present by blast
qed


lemma FT_reachable_children_ascending:
  "FT_reachable ft \<Longrightarrow> FT_wf ft \<and> FT_children_ascending ft"
  using FT_reachable_lone FT_lone_root_wf FT_lone_root_ascending by blast

lemma FT_reachable_insertDir_SUCCESS:
  assumes "FT_reachable ft" and "FT_insertDir ft pcPath mem = Returns (SUCCESS, ft')"
  shows "oRoot ft = None \<and> FT_lone_root ft'"
proof -
  from assms(1) have lone: "FT_lone_root ft" by (rule FT_reachable_lone)
  then have "FT_wf ft" by (rule FT_lone_root_wf)
  with assms(2) have "oRoot ft = None"
    using FT_insertDir_wf_present by (cases "oRoot ft") blast+
  moreover from assms(2) lone have "FT_lone_root ft'" by (rule FT_insertDir_lone)
  ultimately show ?thesis by simp
qed

lemma FT_reachable_insertFile_fails:
  "FT_reachable ft \<Longrightarrow> FT_insertFile ft pcPath pvContents ulLength mem \<noteq> Returns (SUCCESS, ft')"
  using FT_reachable_lone FT_lone_root_wf FT_insertFile_wf by blast

section \<open>Linking a new node among the children (C5)\<close>


lemma FT_a_a_z_not_reachable: "\<not> FT_reachable FT_a_a_z"
  using FT_reachable_lone[of FT_a_a_z] by (auto simp: FT_lone_root_def FT_a_a_z_def)


section \<open>Replacing file contents (C6)\<close>

text \<open>
  In a well-formed tree \<^verbatim>\<open>FT_getFileContents\<close> and \<^verbatim>\<open>FT_replaceFileContents\<close>
  return \<^verbatim>\<open>NULL\<close> for every path, and the tree stays as it is.
\<close>

lemma FT_getFileContents_wf: "FT_wf ft \<Longrightarrow> FT_getFileContents ft pcPath = Returns NullPtr"
  by (auto simp: FT_getFileContents_def Path_getDepth_def FT_walk_wf_root split: option.splits)

lemma FT_replaceFileContents_wf:
  "FT_wf ft \<Longrightarrow>
   FT_replaceFileContents ft pcPath pvNewContents ulNewLength mem = Returns (NullPtr, ft)"
  by (auto simp: FT_replaceFileContents_def Path_getDepth_def FT_walk_wf_root
      split: option.splits)

text \<open>
  Where the traversal does end at a file, the tree \<open>FT_file_at_root_level\<close>, the
  contents are replaced, and the pointer returned is the pointer of the old buffer, which
  \<^verbatim>\<open>Node_setContents\<close> has freed.
\<close>

lemma FT_replaceFileContents_returns_freed:
  "FT_replaceFileContents FT_file_at_root_level ''/a'' (Some [CHR ''y'', CHR ''y'', CHR 0x00]) 3
     no_failure
   = Returns (FreedPtr [],
       \<lparr>bIsInitialized = True,
        oRoot = Some (Node [''a''] FT_DIR [Node [''a''] FT_FILE [] (Some ''yy'')] None)\<rparr>)"
  by (simp add: FT_replaceFileContents_def FT_replaceFileContents_set_def
      FT_file_at_root_level_def Path_create_a Path_getDepth_def FT_walk_file_at_root_level
      no_failure_def memcpy_def cstring_def Node_setContents_def Node_getContents_def)

text \<open>
  C6. The scenario of the spec: after \<^verbatim>\<open>FT_insertDir("/a")\<close> the call
  \<^verbatim>\<open>FT_insertFile("/a/f", "x")\<close> fails, and \<^verbatim>\<open>FT_replaceFileContents("/a/f", "yy")\<close>
  returns \<^verbatim>\<open>NULL\<close>, where the claim says it returns the previous contents. In the
  tree \<open>FT_with_file\<close>, which holds the file \<^verbatim>\<open>"/a/f"\<close> with contents
  \<^verbatim>\<open>"x"\<close>, the replacement returns \<^verbatim>\<open>NULL\<close> as well and changes nothing, and
  \<^verbatim>\<open>FT_getFileContents("/a/f")\<close> returns \<^verbatim>\<open>NULL\<close>.
\<close>

theorem FT_replaceFileContents_returns_NULL:
  "FT_insertDir FT_empty ''/a'' no_failure = Returns (SUCCESS, FT_only_a) \<and>
   FT_insertFile FT_only_a ''/a/f'' (Some [CHR ''x'', CHR 0x00]) 2 no_failure
     = Returns (CONFLICTING_PATH, FT_only_a) \<and>
   FT_replaceFileContents FT_only_a ''/a/f'' (Some [CHR ''y'', CHR ''y'', CHR 0x00]) 3 no_failure
     = Returns (NullPtr, FT_only_a) \<and>
   FT_replaceFileContents FT_with_file ''/a/f'' (Some [CHR ''y'', CHR ''y'', CHR 0x00]) 3 no_failure
     = Returns (NullPtr, FT_with_file) \<and>
   FT_getFileContents FT_with_file ''/a/f'' = Returns NullPtr"
proof (intro conjI)
  show "FT_insertDir FT_empty ''/a'' no_failure = Returns (SUCCESS, FT_only_a)"
    by (rule FT_insertDir_a)
  show "FT_insertFile FT_only_a ''/a/f'' (Some [CHR ''x'', CHR 0x00]) 2 no_failure
          = Returns (CONFLICTING_PATH, FT_only_a)"
    by (simp add: FT_insertFile_def FT_insertFile_from_def FT_only_a_def Path_create_a_f
        Path_getDepth_def FT_descend_no_children)
  show "FT_replaceFileContents FT_only_a ''/a/f'' (Some [CHR ''y'', CHR ''y'', CHR 0x00]) 3
          no_failure = Returns (NullPtr, FT_only_a)"
    by (simp add: FT_replaceFileContents_def FT_only_a_def Path_create_a_f Path_getDepth_def
        FT_walk_no_children)
  show "FT_replaceFileContents FT_with_file ''/a/f'' (Some [CHR ''y'', CHR ''y'', CHR 0x00]) 3
          no_failure = Returns (NullPtr, FT_with_file)"
    by (simp add: FT_replaceFileContents_def FT_with_file_def Path_create_a_f
        Path_getDepth_def FT_walk_with_file)
  show "FT_getFileContents FT_with_file ''/a/f'' = Returns NullPtr"
    by (simp add: FT_getFileContents_def FT_with_file_def Path_create_a_f Path_getDepth_def
        FT_walk_with_file)
qed

section \<open>The status of a node (C7)\<close>

text \<open>
  In a well-formed tree \<^verbatim>\<open>FT_stat\<close> never returns \<^verbatim>\<open>SUCCESS\<close>, and it leaves
  both output parameters as they were.
\<close>

lemma FT_stat_wf:
  "FT_wf ft \<Longrightarrow> \<exists>s. s \<noteq> SUCCESS \<and> FT_stat ft pcPath pbIsFile pulSize = Returns (s, pbIsFile, pulSize)"
  by (auto simp: FT_stat_def Path_getDepth_def FT_walk_wf_root split: option.splits)

text \<open>
  Whenever \<^verbatim>\<open>FT_stat\<close> returns a status other than \<^verbatim>\<open>SUCCESS\<close>, both output
  parameters hold what they held before the call.
\<close>

lemma FT_stat_failure_unchanged:
  "FT_stat ft pcPath pbIsFile pulSize = Returns (s, pbIsFile', pulSize') \<Longrightarrow> s \<noteq> SUCCESS
   \<Longrightarrow> pbIsFile' = pbIsFile \<and> pulSize' = pulSize"
  by (auto simp: FT_stat_def split: if_splits option.splits outcome.splits walk.splits)

text \<open>
  C7. After a successful \<^verbatim>\<open>FT_insertDir("/a")\<close>, \<^verbatim>\<open>FT_stat("/a", &isFile, &size)\<close>
  returns \<^verbatim>\<open>NO_SUCH_PATH\<close> and leaves both output parameters as they were, where
  the claim says it reports \<^verbatim>\<open>isFile = FALSE\<close>.
\<close>

theorem FT_stat_after_insertDir:
  "FT_insertDir FT_empty ''/a'' no_failure = Returns (SUCCESS, FT_only_a) \<and>
   FT_stat FT_only_a ''/a'' (Some True) (Some 7) = Returns (NO_SUCH_PATH, Some True, Some 7)"
proof (intro conjI)
  show "FT_insertDir FT_empty ''/a'' no_failure = Returns (SUCCESS, FT_only_a)"
    by (rule FT_insertDir_a)
  show "FT_stat FT_only_a ''/a'' (Some True) (Some 7)
          = Returns (NO_SUCH_PATH, Some True, Some 7)"
    by (simp add: FT_stat_def FT_only_a_def Path_create_a Path_getDepth_def
        Path_prefix_def Path_isPrefix_def FT_walk_no_children)
qed

section \<open>The serialization (C8)\<close>

text \<open>
  \<^verbatim>\<open>FT_traverseToString\<close> visits every node below the one it is called on, and it
  does not return on a file: it returns exactly on the trees that hold no file.
\<close>

lemma FT_joinLines_Aborts:
  "FT_joinLines rs = Aborts \<longleftrightarrow> Aborts \<in> set rs"
  by (induction rs rule: FT_joinLines.induct) (auto split: outcome.splits)

lemma set_children_sorted:
  "set (qsort (filter (\<lambda>c. eType c = FT_FILE) cs) @ qsort (filter (\<lambda>c. eType c \<noteq> FT_FILE) cs))
     = set cs"
  by (auto simp: set_qsort)

lemma FT_traverseToString_Aborts_iff:
  "FT_traverseToString oNode = Aborts
   \<longleftrightarrow> list_ex (\<lambda>n. eType n = FT_FILE) (Node_nodes oNode)"
proof (induction oNode rule: FT_traverseToString.induct)
  case (1 oNode)
  obtain p t cs x where n: "oNode = Node p t cs x" by (cases oNode)
  show ?case
  proof (cases "t = FT_FILE")
    case True
    with n show ?thesis
      by (subst FT_traverseToString.simps) (simp add: Node_getNumChildren_def)
  next
    case False
    then have dir: "t = FT_DIR" by (cases t) simp_all
    with n have num: "Node_getNumChildren oNode = Returns (length cs)"
      by (simp add: Node_getNumChildren_def)
    have IH: "FT_traverseToString c = Aborts
              \<longleftrightarrow> list_ex (\<lambda>n. eType n = FT_FILE) (Node_nodes c)"
      if "c \<in> set cs" for c
      using "1.IH"[OF num, of c] that n by (auto simp: set_qsort)
    define kids where
      "kids = qsort (filter (\<lambda>c. eType c = FT_FILE) cs) @ qsort (filter (\<lambda>c. eType c \<noteq> FT_FILE) cs)"
    have kids: "set kids = set cs"
      unfolding kids_def by (rule set_children_sorted)
    have "FT_traverseToString oNode = Aborts
          \<longleftrightarrow> FT_joinLines (map FT_traverseToString kids) = Aborts"
      using n num unfolding kids_def
      by (subst FT_traverseToString.simps) (simp split: outcome.splits)
    also have "\<dots> \<longleftrightarrow> (\<exists>c\<in>set cs. FT_traverseToString c = Aborts)"
      using kids by (simp add: FT_joinLines_Aborts image_iff) metis
    also have "\<dots> \<longleftrightarrow> (\<exists>c\<in>set cs. list_ex (\<lambda>n. eType n = FT_FILE) (Node_nodes c))"
      using IH by blast
    also have "\<dots> \<longleftrightarrow> list_ex (\<lambda>n. eType n = FT_FILE) (Node_nodes oNode)"
      using n dir by (auto simp: list_ex_iff)
    finally show ?thesis .
  qed
qed

text \<open>
  \<^verbatim>\<open>FT_toString\<close> returns \<^verbatim>\<open>NULL\<close> when the tree is not initialized or is
  empty. On a reachable tree that has a root it returns the one line of the root.
\<close>

lemma FT_toString_NULL:
  "\<not> bIsInitialized ft \<or> oRoot ft = None \<Longrightarrow> FT_toString ft = Returns None"
  by (auto simp: FT_toString_def)

lemma FT_toString_reachable:
  assumes "FT_reachable ft" and "oRoot ft = Some root"
  shows "FT_toString ft
           = Returns (Some (Path_toString (oPPath root) @ '' [dir]'' @ [CHR 0x0A]))"
proof -
  from assms(1) have "FT_lone_root ft" by (rule FT_reachable_lone)
  then obtain p x where root: "root = Node p FT_DIR [] x" and "bIsInitialized ft"
    using assms(2) by (cases rule: FT_lone_root_cases) auto
  with assms(2) show ?thesis
    unfolding root
    by (simp add: FT_toString_def FT_traverseToString.simps Node_getNumChildren_def qsort_def
        Node_toString_def)
qed














text \<open>
  On a tree that holds a file \<^verbatim>\<open>FT_toString\<close> would not return:
  \<^verbatim>\<open>FT_traverseToString\<close> is called on the file and asks for the number of its
  children, and \<^verbatim>\<open>Node_getNumChildren\<close> asserts that its node is a directory. No
  sequence of calls builds such a tree, \<^verbatim>\<open>FT_insertFile\<close> never succeeding; the tree
  of the spec's ordering law, the root \<^verbatim>\<open>"/a"\<close> with the directory \<^verbatim>\<open>"/a/z"\<close>
  and the file \<^verbatim>\<open>"/a/y"\<close>, is one.
\<close>

lemma FT_toString_a_z_y: "FT_toString FT_a_z_y = Aborts"
  by (simp add: FT_toString_def FT_a_z_y_def FT_traverseToString.simps
      Node_getNumChildren_def qsort_def)

lemma FT_a_z_y_not_reachable: "\<not> FT_reachable FT_a_z_y"
  using FT_reachable_lone[of FT_a_z_y] by (auto simp: FT_lone_root_def FT_a_z_y_def)

section \<open>The checker on a tree of one node (C9)\<close>

lemma size_t_minus_0_1: "size_t_minus 0 (Suc 0) = SIZE_MAX"
  by (simp add: size_t_minus_def)

lemma SIZE_MAX_pos: "0 < SIZE_MAX"
  by (simp add: SIZE_MAX_def)

lemma CheckerDT_in_order_Nil:
  "CheckerDT_in_order h [] 0 (size_t_minus 0 (Suc 0)) = Returns False"
  by (subst CheckerDT_in_order.simps) (simp add: size_t_minus_0_1 SIZE_MAX_pos DT_getChild_def)

lemma CheckerDT_Node_isValid_heap_one: "CheckerDT_Node_isValid heap_one (Some 0) = Returns False"
  by (simp add: CheckerDT_Node_isValid_def heap_one_def CheckerDT_Node_children_valid_def
      CheckerDT_in_order_Nil)

text \<open>
  C9. For the initialized tree of one node and the count 1, \<^verbatim>\<open>CheckerDT_isValid\<close>
  returns \<^verbatim>\<open>FALSE\<close>, where every condition the claim lists holds
  (\<^const>\<open>Spec_isValid\<close> is true). The loop over
  neighbouring children runs to \<^verbatim>\<open>ulNumChildren - 1\<close>, which is
  \<^verbatim>\<open>SIZE_MAX\<close> for a node with no children, and its first round fails to fetch
  child 0.
\<close>

theorem CheckerDT_isValid_rejects_single_node:
  "Spec_isValid (Suc fuel) heap_one True (Some 0) 1 = Some True \<and>
   CheckerDT_isValid (Suc fuel) heap_one True (Some 0) 1 = Some (Returns False)"
proof (intro conjI)
  show "Spec_isValid (Suc fuel) heap_one True (Some 0) 1 = Some True"
    by (simp add: Spec_isValid_def heap_one_def Spec_Node_valid_def)
  show "CheckerDT_isValid (Suc fuel) heap_one True (Some 0) 1 = Some (Returns False)"
    by (simp add: CheckerDT_isValid_def CheckerDT_Node_isValid_heap_one)
qed

text \<open>
  The same happens at every node with no children, and every finite tree has one: the
  checker accepts no tree that has a root. Without a root it returns \<^verbatim>\<open>TRUE\<close>
  exactly when the count is 0.
\<close>

lemma CheckerDT_Node_isValid_leaf:
  assumes "h a = Some n" and "dChildren n = []"
  shows "CheckerDT_Node_isValid h (Some a) \<noteq> Returns True"
  using assms
  by (auto simp: CheckerDT_Node_isValid_def CheckerDT_Node_children_valid_def
      CheckerDT_in_order_Nil split: option.splits outcome.splits)

lemma CheckerDT_treeCheck_never_TRUE:
  "CheckerDT_treeCheck fuel h (Some a) ulCount \<noteq> Some (Returns (True, ulCount'))"
proof (induction fuel arbitrary: a ulCount ulCount')
  case 0
  show ?case by simp
next
  case (Suc fuel)
  show ?case
  proof (cases "CheckerDT_Node_isValid h (Some a) = Returns True")
    case False
    then show ?thesis by (auto split: outcome.splits bool.splits)
  next
    case True
    show ?thesis
    proof (cases "h a")
      case None
      with True show ?thesis by simp
    next
      case (Some n)
      with True have "dChildren n \<noteq> []"
        using CheckerDT_Node_isValid_leaf by blast
      then obtain c rest where cs: "dChildren n = c # rest" by (cases "dChildren n") auto
      show ?thesis
      proof (cases c)
        case None
        with True Some cs show ?thesis by simp
      next
        case (Some b)
        with Suc.IH[of b "Suc ulCount"] True \<open>h a = Some n\<close> cs show ?thesis
          by (auto split: option.splits outcome.splits bool.splits)
      qed
    qed
  qed
qed

lemma CheckerDT_isValid_not_initialized:
  "CheckerDT_isValid fuel h False oNRoot ulCount = Some (Returns (ulCount = 0 \<and> oNRoot = None))"
  by (simp add: CheckerDT_isValid_def)

lemma CheckerDT_isValid_no_root:
  "CheckerDT_isValid fuel h True None ulCount = Some (Returns (ulCount = 0))"
  by (auto simp: CheckerDT_isValid_def)

lemma CheckerDT_isValid_never_TRUE:
  "CheckerDT_isValid fuel h True (Some a) ulCount \<noteq> Some (Returns True)"
  using CheckerDT_treeCheck_never_TRUE[of fuel h a 0]
  by (auto simp: CheckerDT_isValid_def split: option.splits outcome.splits bool.splits)

section \<open>Files always have a content buffer (C10)\<close>

text \<open>
  The property that every file node has a buffer is stated for any tree, well-formed or
  not, and shown to be kept by every function of the File Tree.
\<close>

lemma Node_files_allocated_sel:
  "Node_files_allocated n \<longleftrightarrow>
     (eType n = FT_DIR \<or> pcContents n \<noteq> None) \<and> list_all Node_files_allocated (oChildren n)"
  by (cases n) simp

lemma Node_files_allocated_child:
  "Node_files_allocated n \<Longrightarrow> j < length (oChildren n) \<Longrightarrow> Node_files_allocated (oChildren n ! j)"
  by (cases n) (simp add: list_all_length)

lemma FT_walk_files_allocated:
  "FT_walk p d i loc r = Returns (Located loc' n) \<Longrightarrow> Node_files_allocated r
   \<Longrightarrow> Node_files_allocated n"
proof (induction p d i loc r rule: FT_walk.induct)
  case (1 p d i loc r)
  show ?case
  proof (cases "i \<le> d")
    case False
    with "1.prems" show ?thesis by (simp add: FT_walk.simps)
  next
    case True
    with "1.prems"(1) obtain pre n' j where
      pre: "Path_prefix p i = Some pre" and num: "Node_getNumChildren r = Returns n'"
      and j: "FT_findChild (oChildren r) pre = Some j"
      and rec: "FT_walk p d (Suc i) (loc @ [j]) (oChildren r ! j) = Returns (Located loc' n)"
      by (subst (asm) FT_walk.simps) (auto split: option.splits outcome.splits)
    from j have "j < length (oChildren r)" by (rule FT_findChild_bound)
    with "1.prems"(2) have "Node_files_allocated (oChildren r ! j)"
      by (rule Node_files_allocated_child)
    with "1.IH"[OF True pre num j rec] show ?thesis .
  qed
qed

lemma Node_modify_files_allocated:
  assumes "\<And>n. Node_files_allocated n \<Longrightarrow> Node_files_allocated (f n)"
  shows "Node_files_allocated r \<Longrightarrow> Node_files_allocated (Node_modify f loc r)"
proof (induction loc arbitrary: r)
  case Nil
  then show ?case by (simp add: assms)
next
  case (Cons j js)
  show ?case
  proof (cases "j < length (oChildren r)")
    case False
    with Cons.prems show ?thesis by simp
  next
    case True
    with Cons.prems have "Node_files_allocated (oChildren r ! j)"
      by (intro Node_files_allocated_child)
    then have "Node_files_allocated (Node_modify f js (oChildren r ! j))"
      by (rule Cons.IH)
    moreover from Cons.prems have "list_all Node_files_allocated (oChildren r)"
      and "eType r = FT_DIR \<or> pcContents r \<noteq> None"
      by (simp_all add: Node_files_allocated_sel[of r])
    ultimately show ?thesis using True
      by (auto simp: list_all_length nth_list_update)
  qed
qed

lemma Node_new_files_allocated:
  "Node_new oPNew oNParent t mem = Returns (Inr n) \<Longrightarrow> Node_files_allocated n"
  by (auto simp: Node_new_def Node_alloc_def Node_hasChild_def
      split: if_splits option.splits outcome.splits bool.splits)

lemma Node_new_file_contents:
  "Node_new oPNew oNParent FT_FILE mem = Returns (Inr n) \<Longrightarrow> pcContents n = Some []"
  by (auto simp: Node_new_def Node_alloc_def Node_hasChild_def
      split: if_splits option.splits outcome.splits bool.splits)

lemma Node_setContents_files_allocated:
  "Node_files_allocated n \<Longrightarrow> Node_files_allocated (snd (Node_setContents n pcNew mem))"
  by (cases n) (auto simp: Node_setContents_def)

lemma DynArray_add_files_allocated:
  "Node_files_allocated new \<Longrightarrow> Node_files_allocated n
   \<Longrightarrow> Node_files_allocated (DynArray_add new n)"
  by (cases n) (simp add: DynArray_add_def)

lemma DynArray_removeAt_files_allocated:
  "Node_files_allocated n \<Longrightarrow> Node_files_allocated (DynArray_removeAt j n)"
  by (cases n) (auto simp: DynArray_removeAt_def list_all_iff dest: in_set_takeD in_set_dropD)

lemma FT_insertDir_files_allocated:
  assumes "FT_insertDir ft pcPath mem = Returns (s, ft')" and "FT_files_allocated ft"
  shows "FT_files_allocated ft'"
  using assms
  by (auto simp: FT_insertDir_def FT_insertDir_link_def FT_files_allocated_def
      Node_new_files_allocated Node_modify_files_allocated DynArray_add_files_allocated
      split: if_splits option.splits outcome.splits descent.splits sum.splits)

lemma FT_insertFile_contents_files_allocated:
  "FT_insertFile_contents new pvContents ulLength mem = Returns (Inr n)
   \<Longrightarrow> Node_files_allocated new \<Longrightarrow> Node_files_allocated n"
  by (auto simp: FT_insertFile_contents_def Node_setContents_files_allocated
      split: option.splits if_splits)

lemma FT_insertFile_link_files_allocated:
  assumes "FT_insertFile_link ft root oNewPath loc oCurr pvContents ulLength mem = Returns (s, ft')"
    and "FT_files_allocated ft" and "Node_files_allocated root"
  shows "FT_files_allocated ft'"
  using assms
  by (auto simp: FT_insertFile_link_def FT_files_allocated_def
      intro!: Node_modify_files_allocated DynArray_add_files_allocated
      dest!: Node_new_files_allocated
      dest: FT_insertFile_contents_files_allocated
      split: if_splits outcome.splits sum.splits)

lemma FT_insertFile_from_files_allocated:
  assumes "FT_insertFile_from ft root oNewPath pvContents ulLength mem = Returns (s, ft')"
    and "FT_files_allocated ft" and "Node_files_allocated root"
  shows "FT_files_allocated ft'"
  using assms
  by (auto simp: FT_insertFile_from_def dest: FT_insertFile_link_files_allocated
      split: outcome.splits descent.splits)

lemma FT_insertFile_files_allocated:
  assumes "FT_insertFile ft pcPath pvContents ulLength mem = Returns (s, ft')"
    and "FT_files_allocated ft"
  shows "FT_files_allocated ft'"
proof (cases "oRoot ft")
  case (Some root)
  with assms(2) have "Node_files_allocated root" by (simp add: FT_files_allocated_def)
  with assms Some show ?thesis
    by (auto simp: FT_insertFile_def dest: FT_insertFile_from_files_allocated
        split: if_splits option.splits)
next
  case None
  show ?thesis
  proof (cases "\<exists>r. Node_new (take 1 (the (Path_create pcPath))) None FT_DIR (mem 0) = Returns (Inr r)")
    case False
    with assms None show ?thesis
      by (auto simp: FT_insertFile_def Path_prefix_def
          split: if_splits option.splits outcome.splits sum.splits)
  next
    case True
    then obtain r where r: "Node_new (take 1 (the (Path_create pcPath))) None FT_DIR (mem 0)
                              = Returns (Inr r)" by blast
    then have ra: "Node_files_allocated r" by (rule Node_new_files_allocated)
    then have "FT_files_allocated (ft\<lparr>oRoot := Some r\<rparr>)"
      by (simp add: FT_files_allocated_def)
    with assms None r ra show ?thesis
      by (auto simp: FT_insertFile_def Path_prefix_def
          dest: FT_insertFile_from_files_allocated
          split: if_splits option.splits)
  qed
qed

lemma FT_unlink_files_allocated:
  "FT_unlink ft root loc = Returns (s, ft') \<Longrightarrow> Node_files_allocated root
   \<Longrightarrow> FT_files_allocated ft'"
  by (auto simp: FT_unlink_def FT_files_allocated_def
      intro!: Node_modify_files_allocated DynArray_removeAt_files_allocated
      split: list.splits)

lemma FT_rmDir_files_allocated:
  assumes "FT_rmDir ft pcPath = Returns (s, ft')" and "FT_files_allocated ft"
  shows "FT_files_allocated ft'"
  using assms
  by (auto simp: FT_rmDir_def FT_files_allocated_def[of ft]
      dest: FT_unlink_files_allocated
      split: if_splits option.splits outcome.splits walk.splits)
    (simp_all add: FT_files_allocated_def)

lemma FT_rmFile_files_allocated:
  assumes "FT_rmFile ft pcPath = Returns (s, ft')" and "FT_files_allocated ft"
  shows "FT_files_allocated ft'"
  using assms
  by (auto simp: FT_rmFile_def FT_files_allocated_def[of ft]
      dest: FT_unlink_files_allocated
      split: if_splits option.splits outcome.splits walk.splits)
    (simp_all add: FT_files_allocated_def)

lemma FT_replaceFileContents_set_files_allocated:
  "FT_replaceFileContents_set ft root loc oCurr newContents mem = Returns (old, ft')
   \<Longrightarrow> FT_files_allocated ft \<Longrightarrow> Node_files_allocated root \<Longrightarrow> FT_files_allocated ft'"
  by (auto simp: FT_replaceFileContents_set_def FT_files_allocated_def
      intro!: Node_modify_files_allocated Node_setContents_files_allocated
      split: if_splits)

lemma FT_replaceFileContents_files_allocated:
  assumes "FT_replaceFileContents ft pcPath pvNewContents ulNewLength mem = Returns (old, ft')"
    and "FT_files_allocated ft"
  shows "FT_files_allocated ft'"
proof (cases "oRoot ft")
  case None
  with assms show ?thesis
    by (auto simp: FT_replaceFileContents_def split: if_splits option.splits)
next
  case (Some root)
  with assms(2) have "Node_files_allocated root" by (simp add: FT_files_allocated_def)
  with assms Some show ?thesis
    by (auto simp: FT_replaceFileContents_def
        dest: FT_replaceFileContents_set_files_allocated
        split: if_splits option.splits outcome.splits walk.splits)
qed

lemma FT_step_files_allocated:
  "FT_step ft ft' \<Longrightarrow> FT_files_allocated ft \<Longrightarrow> FT_files_allocated ft'"
proof (induction rule: FT_step.induct)
  case (step_init ft s ft')
  then show ?case by (auto simp: FT_init_def FT_files_allocated_def split: if_splits)
next
  case (step_destroy ft s ft')
  then show ?case by (auto simp: FT_destroy_def FT_files_allocated_def split: if_splits)
next
  case (step_insertDir ft pcPath mem s ft')
  then show ?case by (rule FT_insertDir_files_allocated)
next
  case (step_insertFile ft pcPath pvContents ulLength mem s ft')
  then show ?case by (rule FT_insertFile_files_allocated)
next
  case (step_rmDir ft pcPath s ft')
  then show ?case by (rule FT_rmDir_files_allocated)
next
  case (step_rmFile ft pcPath s ft')
  then show ?case by (rule FT_rmFile_files_allocated)
next
  case (step_replaceFileContents ft pcPath pvNewContents ulNewLength mem old ft')
  then show ?case by (rule FT_replaceFileContents_files_allocated)
qed

lemma FT_reachable_files_allocated: "FT_reachable ft \<Longrightarrow> FT_files_allocated ft"
proof (induction rule: FT_reachable.induct)
  case reachable_start
  show ?case by (simp add: FT_files_allocated_def FT_start_def)
next
  case (reachable_step ft ft')
  then show ?case by (auto intro: FT_step_files_allocated)
qed

lemma FT_getFileContents_NULL_iff:
  assumes "FT_files_allocated ft"
  shows "FT_getFileContents ft pcPath = Returns NullPtr
         \<longleftrightarrow> FT_containsFile ft pcPath = Returns False"
proof (cases "oRoot ft")
  case None
  then show ?thesis
    by (auto simp: FT_getFileContents_def FT_containsFile_def split: option.splits)
next
  case (Some root)
  with assms have root: "Node_files_allocated root" by (simp add: FT_files_allocated_def)
  have found: "pcContents n \<noteq> None"
    if "FT_walk p d i loc root = Returns (Located loc' n)" and "eType n = FT_FILE"
    for p d i loc loc' n
  proof -
    from that(1) root have "Node_files_allocated n" by (rule FT_walk_files_allocated)
    with that(2) show ?thesis by (simp add: Node_files_allocated_sel[of n])
  qed
  show ?thesis using Some
    by (auto simp: FT_getFileContents_def FT_containsFile_def Node_getContents_def
        dest: found split: option.splits outcome.splits walk.splits)
qed

text \<open>
  C10. \<^verbatim>\<open>Node_new\<close> gives a new file the empty string as contents, and
  \<^verbatim>\<open>Node_setContents\<close> stores the empty string for a \<^verbatim>\<open>NULL\<close> argument. In a
  tree whose files all have a buffer, every call leaves a tree whose files all have a
  buffer, and so has every reachable tree. In such a tree \<^verbatim>\<open>FT_getFileContents\<close>
  returns \<^verbatim>\<open>NULL\<close> exactly when \<^verbatim>\<open>FT_containsFile\<close> returns \<^verbatim>\<open>FALSE\<close>,
  that is when the traversal does not end at a file.
\<close>

theorem FT_file_contents_never_NULL:
  assumes "FT_files_allocated ft"
  shows "(\<forall>oPNew oNParent mem n.
            Node_new oPNew oNParent FT_FILE mem = Returns (Inr n) \<longrightarrow> pcContents n = Some []) \<and>
         (\<forall>n. eType n = FT_FILE \<longrightarrow>
            Node_setContents n None True = (1, Node (oPPath n) FT_FILE (oChildren n) (Some []))) \<and>
         (\<forall>ft'. FT_step ft ft' \<longrightarrow> FT_files_allocated ft') \<and>
         (\<forall>ft0. FT_reachable ft0 \<longrightarrow> FT_files_allocated ft0) \<and>
         (\<forall>pcPath. FT_getFileContents ft pcPath = Returns NullPtr
                   \<longleftrightarrow> FT_containsFile ft pcPath = Returns False)"
proof (intro conjI allI impI)
  fix oPNew oNParent mem n
  assume "Node_new oPNew oNParent FT_FILE mem = Returns (Inr n)"
  then show "pcContents n = Some []" by (rule Node_new_file_contents)
next
  fix n
  assume "eType n = FT_FILE"
  then show "Node_setContents n None True = (1, Node (oPPath n) FT_FILE (oChildren n) (Some []))"
    by (simp add: Node_setContents_def)
next
  fix ft'
  assume "FT_step ft ft'"
  then show "FT_files_allocated ft'" using assms by (rule FT_step_files_allocated)
next
  fix ft0
  assume "FT_reachable ft0"
  then show "FT_files_allocated ft0" by (rule FT_reachable_files_allocated)
next
  fix pcPath
  show "FT_getFileContents ft pcPath = Returns NullPtr
        \<longleftrightarrow> FT_containsFile ft pcPath = Returns False"
    using assms by (rule FT_getFileContents_NULL_iff)
qed

text \<open>
  Instances: in \<open>FT_file_at_root_level\<close> the lookup of \<^verbatim>\<open>"/a"\<close> ends at the
  empty file and \<^verbatim>\<open>FT_getFileContents\<close> returns its buffer; in
  \<open>FT_with_file\<close> the lookup of \<^verbatim>\<open>"/a/f"\<close> finds nothing and the result is
  \<^verbatim>\<open>NULL\<close>.
\<close>

theorem FT_file_contents_never_NULL_witness:
  "FT_files_allocated FT_file_at_root_level \<and>
   FT_containsFile FT_file_at_root_level ''/a'' = Returns True \<and>
   FT_getFileContents FT_file_at_root_level ''/a'' \<noteq> Returns NullPtr \<and>
   FT_files_allocated FT_with_file \<and>
   FT_containsFile FT_with_file ''/a/f'' = Returns False \<and>
   FT_getFileContents FT_with_file ''/a/f'' = Returns NullPtr \<and>
   Node_new [''a''] None FT_FILE True = Returns (Inr (Node [''a''] FT_FILE [] (Some []))) \<and>
   pcContents (Node [''a''] FT_FILE [] (Some [])) = Some [] \<and>
   FT_step FT_empty FT_only_a \<and> FT_files_allocated FT_only_a"
proof -
  have a: "FT_files_allocated FT_file_at_root_level"
    by (simp add: FT_files_allocated_def FT_file_at_root_level_def)
  have b: "FT_files_allocated FT_with_file"
    by (simp add: FT_files_allocated_def FT_with_file_def)
  have c: "FT_files_allocated FT_empty"
    by (simp add: FT_files_allocated_def FT_empty_def)
  have found: "FT_containsFile FT_file_at_root_level ''/a'' = Returns True"
    by (simp add: FT_containsFile_def FT_file_at_root_level_def Path_create_a Path_getDepth_def
        FT_walk_file_at_root_level)
  have missed: "FT_containsFile FT_with_file ''/a/f'' = Returns False"
    by (simp add: FT_containsFile_def FT_with_file_def Path_create_a_f Path_getDepth_def
        FT_walk_with_file)
  have new: "Node_new [''a''] None FT_FILE True = Returns (Inr (Node [''a''] FT_FILE [] (Some [])))"
    by (simp add: Node_new_def Node_alloc_def Path_getDepth_def)
  have step: "FT_step FT_empty FT_only_a"
    using FT_insertDir_a by (rule step_insertDir)
  from FT_file_contents_never_NULL[OF a] found
  have "FT_getFileContents FT_file_at_root_level ''/a'' \<noteq> Returns NullPtr" by simp
  moreover from FT_file_contents_never_NULL[OF b] missed
  have "FT_getFileContents FT_with_file ''/a/f'' = Returns NullPtr" by simp
  moreover from FT_file_contents_never_NULL[OF c] step
  have "FT_files_allocated FT_only_a" by blast
  moreover from FT_file_contents_never_NULL[OF c] new
  have "pcContents (Node [''a''] FT_FILE [] (Some [])) = Some []" by blast
  ultimately show ?thesis using a b found missed new step by simp
qed

end
